theory Spec2Isabelle
  imports Main "HOL-Library.Multiset" "HOL-Library.Char_ord" "HOL-Library.List_Lexorder"
    "HOL-Library.Product_Lexorder"
begin

section \<open>Python values, exceptions and the warehouse driver\<close>

text \<open>
  The module \<^verbatim>\<open>snowflake_connector.py\<close> talks to a warehouse through the driver's
  connection object. The warehouse is outside the program, so a connection is modelled by
  what it answers: a function from the text of a statement to the outcome of running it.
  The answer to a statement does not depend on when it is asked (the statements of this
  module that read data are catalog reads and \<^verbatim>\<open>select distinct\<close> samples).

  A result row of a \<^verbatim>\<open>DictCursor\<close> is a Python dict, kept as an association list in
  insertion order (keys are distinct in a well-formed row); any other row is a tuple.
  The type \<open>'v\<close> is the type of the raw cell values (Python's \<^verbatim>\<open>Any\<close>).
\<close>

datatype 'v row = DictRow "(string \<times> 'v) list" | TupleRow "'v list"

text \<open>
  The exceptions the module raises or lets through. A \<^verbatim>\<open>ValueError\<close> whose message
  formats a row or a result list keeps that payload instead of its \<^verbatim>\<open>repr\<close>:
  \<open>ValueError_row r\<close> is \<^verbatim>\<open>ValueError(f"Expected a dict for row object. Instead passed {row}")\<close>,
  \<open>ValueError_res rs\<close> is
  \<^verbatim>\<open>ValueError(f"Expected the first item of res to be a dict. Instead passed {res}")\<close>.
  \<open>ProgrammingError\<close> is the driver's class of that name; \<open>DriverError\<close> is any other
  exception of the driver (its \<^verbatim>\<open>OperationalError\<close>, \<^verbatim>\<open>DatabaseError\<close>,
  \<^verbatim>\<open>InterfaceError\<close>, ...), which is not a subclass of \<^verbatim>\<open>ProgrammingError\<close>.
  All of them are subclasses of Python's \<^verbatim>\<open>Exception\<close>.
\<close>

datatype 'v py_exception =
    ValueError string
  | ValueError_row "'v row"
  | ValueError_res "'v row list"
  | AssertionError string
  | IndexError
  | KeyError string
  | TypeError
  | ProgrammingError string
  | DriverError string

text \<open>
  The outcome of \<^verbatim>\<open>cursor.execute(q)\<close> followed by reading the result: an exception,
  the value \<^verbatim>\<open>None\<close> returned by \<^verbatim>\<open>execute\<close>, or the rows fetched.
\<close>

datatype ('e, 'r) outcome = Raises 'e | ReturnsNone | Fetched 'r

text \<open>What the program does to the outside, in the order it does it.\<close>

datatype 'v event =
    SessionOpened
  | SessionClosed
  | Statement string
  | LogDebug string
  | LogInfo string
  | LogWarning string
  | LogError "'v py_exception"

text \<open>Rows of \<^verbatim>\<open>show tables in database\<close> / \<^verbatim>\<open>show views in database\<close>, restricted to
  the three columns \<^verbatim>\<open>_get_df\<close> keeps.\<close>

record show_row =
  show_name :: string
  show_schema_name :: string
  show_comment :: "string option"

text \<open>Rows of the frame \<^verbatim>\<open>_fetch_valid_tables_and_views\<close> returns (after the rename).\<close>

record valid_row =
  v_TABLE_NAME :: string
  v_TABLE_SCHEMA :: string
  v_TABLE_COMMENT :: "string option"

text \<open>Rows of the information-schema query (\<^verbatim>\<open>fetch_pandas_all\<close>).\<close>

record catalog_row =
  c_TABLE_SCHEMA :: string
  c_TABLE_NAME :: string
  c_COLUMN_NAME :: string
  c_DATA_TYPE :: string
  c_COLUMN_COMMENT :: "string option"

text \<open>Rows of the merged frame: the left frame's columns, then the right frame's columns
  that are not join keys.\<close>

record columns_row =
  TABLE_NAME :: string
  TABLE_SCHEMA :: string
  TABLE_COMMENT :: "string option"
  COLUMN_NAME :: string
  DATA_TYPE :: string
  COLUMN_COMMENT :: "string option"

text \<open>
  A connection: the attribute \<^verbatim>\<open>warehouse\<close>, and the answers of the warehouse to
  \<^item> \<open>execute_dict q\<close>: \<^verbatim>\<open>conn.cursor(DictCursor).execute(q)\<close> then \<^verbatim>\<open>fetchall()\<close>;
  \<^item> \<open>execute_stmt q\<close>: \<^verbatim>\<open>conn.cursor().execute(q)\<close> whose result is not read
    (\<open>Some e\<close> when it raises \<open>e\<close>);
  \<^item> \<open>execute_catalog q\<close>: \<^verbatim>\<open>conn.cursor().execute(q)\<close> then \<^verbatim>\<open>fetch_pandas_all()\<close>;
  \<^item> \<open>execute_show q\<close>: \<^verbatim>\<open>conn.cursor().execute(q)\<close> then \<^verbatim>\<open>fetchall()\<close> with the
    cursor's description.
\<close>

record 'v connection =
  warehouse :: "string option"
  execute_dict :: "string \<Rightarrow> ('v py_exception, 'v row list) outcome"
  execute_stmt :: "string \<Rightarrow> 'v py_exception option"
  execute_catalog :: "string \<Rightarrow> ('v py_exception, catalog_row list) outcome"
  execute_show :: "string \<Rightarrow> ('v py_exception, show_row list) outcome"

text \<open>\<^verbatim>\<open>data_types.Column\<close> and \<^verbatim>\<open>data_types.Table\<close>, by the keyword arguments the
  module constructs them with: \<^verbatim>\<open>id_\<close>, \<^verbatim>\<open>column_name\<close>, \<^verbatim>\<open>comment\<close>,
  \<^verbatim>\<open>column_type\<close>, \<^verbatim>\<open>values\<close> for a Column and \<^verbatim>\<open>id_\<close>, \<^verbatim>\<open>name\<close>,
  \<^verbatim>\<open>comment\<close>, \<^verbatim>\<open>columns\<close> for a Table (a name ending in an underscore is
  not a constant name here, and the two records cannot share field names).\<close>

record Column =
  column_id :: int
  column_name :: string
  comment :: "string option"
  column_type :: string
  column_values :: "string list option"

record Table =
  table_id :: int
  name :: string
  table_comment :: "string option"
  columns :: "Column list"

section \<open>Strings\<close>

definition dq :: char where
  "dq = CHR 0x22"

definition sq :: char where
  "sq = CHR 0x27"

definition nl :: char where
  "nl = CHR 0x0A"

text \<open>\<^verbatim>\<open>str(n)\<close> for a Python int: decimal digits, a minus sign for a negative number.\<close>

fun str_nat :: "nat \<Rightarrow> string" where
  "str_nat n =
     (if n < 10 then [''0123456789'' ! n]
      else str_nat (n div 10) @ [''0123456789'' ! (n mod 10)])"

declare str_nat.simps [simp del]

definition str_int :: "int \<Rightarrow> string" where
  "str_int i = (if i < 0 then CHR ''-'' # str_nat (nat (- i)) else str_nat (nat i))"

text \<open>\<^verbatim>\<open>", ".join(xs)\<close>.\<close>

fun join :: "string \<Rightarrow> string list \<Rightarrow> string" where
  "join sep [] = []"
| "join sep [x] = x"
| "join sep (x # y # ys) = x @ sep @ join sep (y # ys)"

text \<open>
  \<^verbatim>\<open>str.lower\<close> is Python's own function on Unicode strings, and strings are byte
  lists here: it is the parameter \<open>lower\<close> of the functions that call it.
  \<open>ascii_lower\<close> is what it does on ASCII strings, for the examples.
  \<open>replace_dash\<close> is \<^verbatim>\<open>str.replace("-", "_")\<close>.
\<close>

definition lower_char :: "char \<Rightarrow> char" where
  "lower_char c =
     (case map_of (zip ''ABCDEFGHIJKLMNOPQRSTUVWXYZ'' ''abcdefghijklmnopqrstuvwxyz'') c of
        None \<Rightarrow> c
      | Some l \<Rightarrow> l)"

definition ascii_lower :: "string \<Rightarrow> string" where
  "ascii_lower s = map lower_char s"

definition replace_dash :: "string \<Rightarrow> string" where
  "replace_dash s = map (\<lambda>c. if c = CHR ''-'' then CHR ''_'' else c) s"

section \<open>Column Sampler: \<^verbatim>\<open>_get_column_representation\<close>\<close>

text \<open>The sampling statement (line 134).\<close>

definition sample_query :: "string \<Rightarrow> string \<Rightarrow> string \<Rightarrow> int \<Rightarrow> string" where
  "sample_query column_name' schema_name table_name ndv =
     ''select distinct '' @ [dq] @ column_name' @ [dq] @ '' from '' @ [dq] @ schema_name @ [dq]
       @ ''.'' @ [dq] @ table_name @ [dq] @ '' limit '' @ str_int ndv"

text \<open>\<^verbatim>\<open>r[col_key]\<close>: a dict without the key raises \<^verbatim>\<open>KeyError\<close>, a tuple indexed by a
  string raises \<^verbatim>\<open>TypeError\<close>.\<close>

fun row_get :: "'v row \<Rightarrow> string \<Rightarrow> 'v py_exception + 'v" where
  "row_get (DictRow kvs) k = (case map_of kvs k of None \<Rightarrow> Inl (KeyError k) | Some v \<Rightarrow> Inr v)"
| "row_get (TupleRow vs) k = Inl TypeError"

text \<open>\<^verbatim>\<open>[str(r[col_key]) for r in res]\<close>; \<open>str\<close> is Python's \<^verbatim>\<open>str\<close> on cell values.\<close>

fun cast_all :: "('v \<Rightarrow> string) \<Rightarrow> string \<Rightarrow> 'v row list \<Rightarrow> 'v py_exception + string list" where
  "cast_all str col_key [] = Inr []"
| "cast_all str col_key (r # rs) =
     (case row_get r col_key of
        Inl e \<Rightarrow> Inl e
      | Inr v \<Rightarrow> (case cast_all str col_key rs of
                   Inl e \<Rightarrow> Inl e
                 | Inr vs \<Rightarrow> Inr (str v # vs)))"

text \<open>Lines 142 to 149: what \<^verbatim>\<open>column_values\<close> becomes from the fetched rows, or the
  exception raised (\<^verbatim>\<open>[k for k in res[0].keys()][0]\<close> raises \<^verbatim>\<open>IndexError\<close> on an
  empty dict).\<close>

fun column_values_of :: "('v \<Rightarrow> string) \<Rightarrow> 'v row list \<Rightarrow> 'v py_exception + string list option" where
  "column_values_of str [] = Inr None"
| "column_values_of str (DictRow [] # rs) = Inl IndexError"
| "column_values_of str (DictRow ((col_key, v) # kvs) # rs) =
     (case cast_all str col_key (DictRow ((col_key, v) # kvs) # rs) of
        Inl e \<Rightarrow> Inl e
      | Inr vs \<Rightarrow> Inr (Some vs))"
| "column_values_of str (TupleRow vs # rs) = Inl (ValueError_res (TupleRow vs # rs))"

text \<open>Lines 127 to 151: the sampling attempt. Every exception inside the \<^verbatim>\<open>try\<close> is
  caught by \<^verbatim>\<open>except Exception\<close>, logged, and leaves \<^verbatim>\<open>column_values\<close> at \<^verbatim>\<open>None\<close>.\<close>

definition sample_column ::
  "('v \<Rightarrow> string) \<Rightarrow> 'v connection \<Rightarrow> string \<Rightarrow> string \<Rightarrow> string \<Rightarrow> int
     \<Rightarrow> 'v event list \<times> string list option" where
  "sample_column str conn schema_name table_name column_name' ndv =
     (if ndv > 0 then
        (let q = sample_query column_name' schema_name table_name ndv in
         case execute_dict conn q of
           Raises e \<Rightarrow> ([Statement q, LogError e], None)
         | ReturnsNone \<Rightarrow>
             ([Statement q, LogError (AssertionError ''cursor_execute should not be none '')], None)
         | Fetched res \<Rightarrow>
             (case column_values_of str res of
                Inl e \<Rightarrow> ([Statement q, LogError e], None)
              | Inr column_values' \<Rightarrow> ([Statement q], column_values')))
      else ([], None))"

text \<open>\<^verbatim>\<open>_get_column_representation\<close> (an Isabelle name cannot start with an underscore):
  the events of the call and the Column it returns.\<close>

definition get_column_representation ::
  "('v \<Rightarrow> string) \<Rightarrow> 'v connection \<Rightarrow> string \<Rightarrow> string \<Rightarrow> string \<Rightarrow> string option \<Rightarrow> int
     \<Rightarrow> string \<Rightarrow> int \<Rightarrow> 'v event list \<times> Column" where
  "get_column_representation str conn schema_name table_name column_name' column_comment
       column_index column_datatype ndv =
     (let (events, column_values') = sample_column str conn schema_name table_name column_name' ndv
      in (events,
          \<lparr> column_id = column_index, column_name = column_name', comment = column_comment,
            column_type = column_datatype, column_values = column_values' \<rparr>))"

section \<open>Table Assembler: \<^verbatim>\<open>get_table_representation\<close>\<close>

text \<open>The inner function \<^verbatim>\<open>_get_col\<close> (lines 88 to 98), as the Column a task returns.\<close>

definition get_col ::
  "('v \<Rightarrow> string) \<Rightarrow> 'v connection \<Rightarrow> string \<Rightarrow> string \<Rightarrow> int \<Rightarrow> nat \<Rightarrow> columns_row \<Rightarrow> Column" where
  "get_col str conn schema_name table_name ndv_per_column col_index column_row =
     snd (get_column_representation str conn schema_name table_name (COLUMN_NAME column_row)
            (COLUMN_COMMENT column_row) (int col_index) (DATA_TYPE column_row) ndv_per_column)"

text \<open>
  The thread pool runs one task per row; \<^verbatim>\<open>as_completed\<close> yields the futures in an
  order the program does not control. That order is the parameter \<open>sched\<close>: the list of
  task numbers in the order their futures are yielded. Each future is yielded once, so
  \<open>sched\<close> is a permutation of the task numbers.
\<close>

definition completion_order :: "nat \<Rightarrow> nat list \<Rightarrow> bool" where
  "completion_order n sched \<longleftrightarrow> mset sched = mset [0..<n]"

text \<open>
  Lines 86 to 114. \<^verbatim>\<open>iloc[0]\<close> on an empty frame raises \<^verbatim>\<open>IndexError\<close>;
  \<^verbatim>\<open>ThreadPoolExecutor\<close> raises \<^verbatim>\<open>ValueError\<close> when \<^verbatim>\<open>max_workers <= 0\<close>;
  \<^verbatim>\<open>sorted(..., key=lambda x: x[0])\<close> is a stable sort on the column index. The value
  returned is modelled; the events of the tasks are those of
  \<open>get_column_representation\<close>.
\<close>

definition get_table_representation ::
  "('v \<Rightarrow> string) \<Rightarrow> 'v connection \<Rightarrow> string \<Rightarrow> string \<Rightarrow> int \<Rightarrow> int \<Rightarrow> columns_row list \<Rightarrow> int
     \<Rightarrow> nat list \<Rightarrow> 'v py_exception + Table" where
  "get_table_representation str conn schema_name table_name table_index ndv_per_column
       columns_df max_workers sched =
     (case columns_df of
        [] \<Rightarrow> Inl IndexError
      | first_row # _ \<Rightarrow>
          if max_workers \<le> 0 then Inl (ValueError ''max_workers must be greater than 0'')
          else
            (let futures = map (\<lambda>(col_index, column_row).
                                  (col_index,
                                   get_col str conn schema_name table_name ndv_per_column
                                     col_index column_row))
                             (enumerate 0 columns_df);
                 index_and_column = map (\<lambda>j. futures ! j) sched;
                 columns' = map snd (sort_key fst index_and_column)
             in Inr \<lparr> table_id = table_index, name = table_name,
                      table_comment = TABLE_COMMENT first_row, columns = columns' \<rparr>))"

section \<open>Metadata Query Layer\<close>

text \<open>The column names of lines 18 to 25 (without the leading underscore).\<close>

definition COMMENT_COL :: string where
  "COMMENT_COL = ''COMMENT''"

definition COLUMN_NAME_COL :: string where
  "COLUMN_NAME_COL = ''COLUMN_NAME''"

definition DATATYPE_COL :: string where
  "DATATYPE_COL = ''DATA_TYPE''"

definition TABLE_SCHEMA_COL :: string where
  "TABLE_SCHEMA_COL = ''TABLE_SCHEMA''"

definition TABLE_NAME_COL :: string where
  "TABLE_NAME_COL = ''TABLE_NAME''"

definition COLUMN_COMMENT_ALIAS :: string where
  "COLUMN_COMMENT_ALIAS = ''COLUMN_COMMENT''"

text \<open>\<^verbatim>\<open>_get_df\<close> (lines 164 to 177): run a listing statement, keep and rename three columns.\<close>

definition rename_row :: "show_row \<Rightarrow> valid_row" where
  "rename_row r =
     \<lparr> v_TABLE_NAME = show_name r, v_TABLE_SCHEMA = show_schema_name r,
       v_TABLE_COMMENT = show_comment r \<rparr>"

definition get_df :: "'v connection \<Rightarrow> string \<Rightarrow> 'v event list \<times> ('v py_exception + valid_row list)" where
  "get_df conn query =
     (case execute_show conn query of
        Raises e \<Rightarrow> ([Statement query], Inl e)
      | ReturnsNone \<Rightarrow> ([Statement query], Inl (AssertionError ''cursor should not be none here.''))
      | Fetched rows \<Rightarrow> ([Statement query], Inr (map rename_row rows)))"

text \<open>\<^verbatim>\<open>_fetch_valid_tables_and_views\<close> (lines 163 to 181): tables, then views.\<close>

definition fetch_valid_tables_and_views ::
  "'v connection \<Rightarrow> 'v event list \<times> ('v py_exception + valid_row list)" where
  "fetch_valid_tables_and_views conn =
     (case get_df conn ''show tables in database'' of
        (ev, Inl e) \<Rightarrow> (ev, Inl e)
      | (ev, Inr tables) \<Rightarrow>
          (case get_df conn ''show views in database'' of
             (ev', Inl e) \<Rightarrow> (ev @ ev', Inl e)
           | (ev', Inr views) \<Rightarrow> (ev @ ev', Inr (tables @ views))))"

text \<open>Python truthiness of an \<^verbatim>\<open>Optional[str]\<close> and of an \<^verbatim>\<open>Optional[List[str]]\<close>:
  \<^verbatim>\<open>None\<close> and the empty value are false.\<close>

definition truthy :: "'a list option \<Rightarrow> bool" where
  "truthy x = (case x of None \<Rightarrow> False | Some v \<Rightarrow> v \<noteq> [])"

text \<open>Lines 194 to 199.\<close>

definition where_clause_of ::
  "(string \<Rightarrow> string) \<Rightarrow> string option \<Rightarrow> string list option \<Rightarrow> string" where
  "where_clause_of lower table_schema table_names =
     (case table_schema of
        None \<Rightarrow> []
      | Some schema \<Rightarrow>
          if schema = [] then []
          else '' where t.table_schema ilike '' @ [sq] @ schema @ [sq] @ '' '' @
            (case table_names of
               None \<Rightarrow> []
             | Some names \<Rightarrow>
                 if names = [] then []
                 else ''AND LOWER(t.table_name) in ('' @
                        join '', '' (map (\<lambda>t. [sq] @ lower t @ [sq]) names) @ '') ''))"

text \<open>Lines 200 to 203.\<close>

definition catalog_query ::
  "(string \<Rightarrow> string) \<Rightarrow> string option \<Rightarrow> string list option \<Rightarrow> string" where
  "catalog_query lower table_schema table_names =
     ''select t.'' @ TABLE_SCHEMA_COL @ '', t.'' @ TABLE_NAME_COL @ '', c.'' @ COLUMN_NAME_COL
       @ '', c.'' @ DATATYPE_COL @ '', c.'' @ COMMENT_COL @ '' as '' @ COLUMN_COMMENT_ALIAS @ [nl]
       @ ''from information_schema.tables as t'' @ [nl]
       @ ''join information_schema.columns as c on t.table_schema = c.table_schema and t.table_name = c.table_name''
       @ where_clause_of lower table_schema table_names @ [nl]
       @ ''order by 1, 2, c.ordinal_position''"

text \<open>
  \<^verbatim>\<open>left.merge(right, how="inner", on=(TABLE_SCHEMA, TABLE_NAME))\<close> of pandas: the rows
  of both frames with equal keys, in the order of the left frame's keys and, for one left
  row, in the order of the right frame (the documented behaviour; pandas before 2.2 groups
  the rows of a repeated left key together, which is the same order when the left keys
  are distinct).
\<close>

definition same_key :: "valid_row \<Rightarrow> catalog_row \<Rightarrow> bool" where
  "same_key l r \<longleftrightarrow> v_TABLE_SCHEMA l = c_TABLE_SCHEMA r \<and> v_TABLE_NAME l = c_TABLE_NAME r"

definition merge_row :: "valid_row \<Rightarrow> catalog_row \<Rightarrow> columns_row" where
  "merge_row l r =
     \<lparr> TABLE_NAME = v_TABLE_NAME l, TABLE_SCHEMA = v_TABLE_SCHEMA l,
       TABLE_COMMENT = v_TABLE_COMMENT l, COLUMN_NAME = c_COLUMN_NAME r,
       DATA_TYPE = c_DATA_TYPE r, COLUMN_COMMENT = c_COLUMN_COMMENT r \<rparr>"

definition merge_inner :: "valid_row list \<Rightarrow> catalog_row list \<Rightarrow> columns_row list" where
  "merge_inner left right =
     concat (map (\<lambda>l. map (merge_row l) (filter (same_key l) right)) left)"

text \<open>\<^verbatim>\<open>get_valid_schemas_tables_columns_df\<close> (lines 184 to 213).\<close>

definition get_valid_schemas_tables_columns_df ::
  "(string \<Rightarrow> string) \<Rightarrow> 'v connection \<Rightarrow> string option \<Rightarrow> string list option
     \<Rightarrow> 'v event list \<times> ('v py_exception + columns_row list)" where
  "get_valid_schemas_tables_columns_df lower conn table_schema table_names =
     (let warning =
            (if truthy table_names \<and> \<not> truthy table_schema
             then [LogWarning ''Provided table_name without table_schema, cannot filter to fetch the specific table'']
             else []);
          query = catalog_query lower table_schema table_names
      in case execute_catalog conn query of
           Raises e \<Rightarrow> (warning @ [Statement query], Inl e)
         | ReturnsNone \<Rightarrow>
             (warning @ [Statement query],
              Inl (AssertionError ''cursor_execute should not be None here''))
         | Fetched schemas_tables_columns_df \<Rightarrow>
             (case fetch_valid_tables_and_views conn of
                (ev, Inl e) \<Rightarrow> (warning @ [Statement query] @ ev, Inl e)
              | (ev, Inr valid_tables_and_views_df) \<Rightarrow>
                  (warning @ [Statement query] @ ev,
                   Inr (merge_inner valid_tables_and_views_df schemas_tables_columns_df))))"

text \<open>The keys of the join, and the part of a merged row that comes from the
  information-schema query.\<close>

definition row_key :: "columns_row \<Rightarrow> string \<times> string" where
  "row_key r = (TABLE_SCHEMA r, TABLE_NAME r)"

definition valid_key :: "valid_row \<Rightarrow> string \<times> string" where
  "valid_key r = (v_TABLE_SCHEMA r, v_TABLE_NAME r)"

definition catalog_key :: "catalog_row \<Rightarrow> string \<times> string" where
  "catalog_key r = (c_TABLE_SCHEMA r, c_TABLE_NAME r)"

definition show_key :: "show_row \<Rightarrow> string \<times> string" where
  "show_key r = (show_schema_name r, show_name r)"

definition catalog_part :: "columns_row \<Rightarrow> catalog_row" where
  "catalog_part r =
     \<lparr> c_TABLE_SCHEMA = TABLE_SCHEMA r, c_TABLE_NAME = TABLE_NAME r,
       c_COLUMN_NAME = COLUMN_NAME r, c_DATA_TYPE = DATA_TYPE r,
       c_COLUMN_COMMENT = COLUMN_COMMENT r \<rparr>"

section \<open>Connection Manager\<close>

text \<open>
  The module \<^verbatim>\<open>env_vars\<close> is not part of the sources at hand: its values are a
  parameter. A variable of the process environment is unset (\<open>None\<close>) or a string; the
  session timeout is a number.
\<close>

record env_vars =
  SNOWFLAKE_ROLE :: "string option"
  SNOWFLAKE_USER :: "string option"
  SNOWFLAKE_PASSWORD :: "string option"
  SNOWFLAKE_WAREHOUSE :: "string option"
  SNOWFLAKE_HOST :: "string option"
  DEFAULT_SESSION_TIMEOUT_SEC :: int

text \<open>The keyword arguments of \<^verbatim>\<open>snowflake_connection\<close> (lines 293 to 300).\<close>

record credentials =
  cred_user :: string
  cred_password :: string
  cred_account :: string
  cred_role :: string
  cred_warehouse :: string
  cred_host :: "string option"

definition QUERY_TAG :: string where
  "QUERY_TAG = ''SEMANTIC_MODEL_GENERATOR''"

text \<open>Lines 226 to 264. \<^verbatim>\<open>not role\<close> holds for \<^verbatim>\<open>None\<close> and for the empty string.\<close>

definition get_role :: "env_vars \<Rightarrow> 'v py_exception + string" where
  "get_role env =
     (if \<not> truthy (SNOWFLAKE_ROLE env)
      then Inl (ValueError ''You need to set an env var for the snowflake role. export SNOWFLAKE_ROLE=<your-snowflake-role>'')
      else Inr (the (SNOWFLAKE_ROLE env)))"

definition get_user :: "env_vars \<Rightarrow> 'v py_exception + string" where
  "get_user env =
     (if \<not> truthy (SNOWFLAKE_USER env)
      then Inl (ValueError ''You need to set an env var for the snowflake user. export SNOWFLAKE_USER=<your-snowflake-user>'')
      else Inr (the (SNOWFLAKE_USER env)))"

definition get_password :: "env_vars \<Rightarrow> 'v py_exception + string" where
  "get_password env =
     (if \<not> truthy (SNOWFLAKE_PASSWORD env)
      then Inl (ValueError ''You need to set an env var for the snowflake password. export SNOWFLAKE_PASSWORD=<your-snowflake-password>'')
      else Inr (the (SNOWFLAKE_PASSWORD env)))"

definition get_warehouse :: "env_vars \<Rightarrow> 'v py_exception + string" where
  "get_warehouse env =
     (if \<not> truthy (SNOWFLAKE_WAREHOUSE env)
      then Inl (ValueError ''You need to set an env var for the snowflake warehouse. export SNOWFLAKE_WAREHOUSE=<your-snowflake-warehouse-name>'')
      else Inr (the (SNOWFLAKE_WAREHOUSE env)))"

definition get_host :: "env_vars \<Rightarrow> 'v event list \<times> string option" where
  "get_host env =
     (if \<not> truthy (SNOWFLAKE_HOST env)
      then ([LogInfo ''No host set. Attempting to connect without. To set export SNOWFLAKE_HOST=<snowflake-host-name>''],
            SNOWFLAKE_HOST env)
      else ([], SNOWFLAKE_HOST env))"

text \<open>Sequencing: run \<open>m\<close>; an exception ends the run, a value goes on into \<open>f\<close>.\<close>

definition and_then ::
  "'v event list \<times> ('v py_exception + 'a) \<Rightarrow> ('a \<Rightarrow> 'v event list \<times> ('v py_exception + 'b))
     \<Rightarrow> 'v event list \<times> ('v py_exception + 'b)" where
  "and_then m f =
     (case m of
        (ev, Inl e) \<Rightarrow> (ev, Inl e)
      | (ev, Inr x) \<Rightarrow> (case f x of (ev', r) \<Rightarrow> (ev @ ev', r)))"

text \<open>\<^verbatim>\<open>connection.cursor().execute(q)\<close> as a step.\<close>

definition run_stmt :: "'v connection \<Rightarrow> string \<Rightarrow> 'v event list \<times> ('v py_exception + unit)" where
  "run_stmt connection q =
     ([Statement q], case execute_stmt connection q of None \<Rightarrow> Inr () | Some e \<Rightarrow> Inl e)"

text \<open>The same step inside \<^verbatim>\<open>try: ... except Exception as e: raise ValueError(msg) from e\<close>.\<close>

definition run_stmt_or ::
  "'v connection \<Rightarrow> string \<Rightarrow> string \<Rightarrow> 'v event list \<times> ('v py_exception + unit)" where
  "run_stmt_or connection q msg =
     ([Statement q], case execute_stmt connection q of None \<Rightarrow> Inr () | Some e \<Rightarrow> Inl (ValueError msg))"

text \<open>
  \<^verbatim>\<open>_open_connection\<close> (lines 290 to 320). The keyword arguments are evaluated in the
  order written: user, password, account, role, warehouse, host. The function
  \<^verbatim>\<open>utils.snowflake_connection\<close> is not part of the sources at hand; it is the parameter
  \<open>snowflake_connection\<close>, which raises or establishes the network session and returns
  its connection (event \<open>SessionOpened\<close>).
\<close>

definition open_connection ::
  "env_vars \<Rightarrow> (credentials \<Rightarrow> 'v py_exception + 'v connection) \<Rightarrow> string \<Rightarrow> string
     \<Rightarrow> string option \<Rightarrow> 'v event list \<times> ('v py_exception + 'v connection)" where
  "open_connection env snowflake_connection account_name db_name schema_name =
     and_then ([], get_user env) (\<lambda>user.
     and_then ([], get_password env) (\<lambda>password.
     and_then ([], get_role env) (\<lambda>role.
     and_then ([], get_warehouse env) (\<lambda>warehouse'.
     and_then (case get_host env of (ev, host) \<Rightarrow> (ev, Inr host)) (\<lambda>host.
     and_then
       (case snowflake_connection
               \<lparr> cred_user = user, cred_password = password, cred_account = account_name,
                 cred_role = role, cred_warehouse = warehouse', cred_host = host \<rparr> of
          Inl e \<Rightarrow> ([], Inl e)
        | Inr connection \<Rightarrow> ([SessionOpened], Inr connection)) (\<lambda>connection.
     and_then
       (if db_name \<noteq> [] then
          run_stmt_or connection (''USE DATABASE '' @ db_name)
            (''Could not connect to database '' @ db_name @ ''. Does the database exist in ''
               @ account_name @ ''?'')
        else ([], Inr ())) (\<lambda>_.
     and_then
       (if truthy schema_name then
          run_stmt_or connection (''USE SCHEMA '' @ the schema_name)
            (''Could not connect to schema '' @ the schema_name
               @ ''. Does the schema exist in the '' @ db_name @ '' database?'')
        else ([], Inr ())) (\<lambda>_.
     and_then
       (if QUERY_TAG \<noteq> [] then
          run_stmt connection (''ALTER SESSION SET QUERY_TAG = '' @ [sq] @ QUERY_TAG @ [sq])
        else ([], Inr ())) (\<lambda>_.
     and_then
       (run_stmt connection
          (''ALTER SESSION SET STATEMENT_TIMEOUT_IN_SECONDS = ''
             @ str_int (DEFAULT_SESSION_TIMEOUT_SEC env))) (\<lambda>_.
     ([], Inr connection)))))))))))"

text \<open>
  \<^verbatim>\<open>connect\<close> (lines 266 to 288), used as \<^verbatim>\<open>with connector.connect(...) as conn: body\<close>.
  The body returns (normally or by an early return) or raises. When
  \<^verbatim>\<open>_open_connection\<close> raises, the local \<^verbatim>\<open>conn\<close> is still \<^verbatim>\<open>None\<close> and the
  \<^verbatim>\<open>finally\<close> block closes nothing; otherwise \<^verbatim>\<open>_close_connection\<close> runs after the
  body (event \<open>SessionClosed\<close>).
\<close>

definition connect ::
  "env_vars \<Rightarrow> (credentials \<Rightarrow> 'v py_exception + 'v connection) \<Rightarrow> string \<Rightarrow> string
     \<Rightarrow> string option \<Rightarrow> ('v connection \<Rightarrow> 'v event list \<times> ('v py_exception + 'a))
     \<Rightarrow> 'v event list \<times> ('v py_exception + 'a)" where
  "connect env snowflake_connection account_name db_name schema_name body =
     (case open_connection env snowflake_connection account_name db_name schema_name of
        (ev, Inl e) \<Rightarrow> (ev, Inl e)
      | (ev, Inr conn) \<Rightarrow> (case body conn of (ev', r) \<Rightarrow> (ev @ ev' @ [SessionClosed], r)))"

text \<open>A session that was opened and not closed afterwards.\<close>

fun session_left_open :: "'v event list \<Rightarrow> bool" where
  "session_left_open [] = False"
| "session_left_open (SessionOpened # evs) = (SessionClosed \<notin> set evs \<or> session_left_open evs)"
| "session_left_open (_ # evs) = session_left_open evs"

section \<open>Generic Query Executor: \<^verbatim>\<open>SnowflakeConnector.execute\<close>\<close>

text \<open>\<^verbatim>\<open>out_dict[k].append(v)\<close> on a \<^verbatim>\<open>defaultdict(list)\<close>, kept in insertion order.\<close>

fun append_value :: "(string \<times> 'v list) list \<Rightarrow> string \<Rightarrow> 'v \<Rightarrow> (string \<times> 'v list) list" where
  "append_value [] k v = [(k, [v])]"
| "append_value ((k', vs) # d) k v =
     (if k' = k then (k', vs @ [v]) # d else (k', vs) # append_value d k v)"

text \<open>The loop of lines 352 to 359.\<close>

fun accumulate ::
  "(string \<times> 'v list) list \<Rightarrow> 'v row list \<Rightarrow> 'v py_exception + (string \<times> 'v list) list" where
  "accumulate out_dict [] = Inr out_dict"
| "accumulate out_dict (DictRow kvs # result) =
     accumulate (fold (\<lambda>(k, v) d. append_value d k v) kvs out_dict) result"
| "accumulate out_dict (TupleRow vs # result) = Inl (ValueError_row (TupleRow vs))"

text \<open>The body of the \<^verbatim>\<open>try\<close> (lines 331 to 347).\<close>

definition execute_try ::
  "env_vars \<Rightarrow> 'v connection \<Rightarrow> string \<Rightarrow> 'v event list \<times> ('v py_exception + 'v row list)" where
  "execute_try env connection query =
     and_then
       (if warehouse connection = None then
          and_then ([], get_warehouse env) (\<lambda>warehouse'.
          and_then
            ([LogDebug (''There is no Warehouse assigned to Connection, setting it to config default (''
                          @ warehouse' @ '')'')], Inr ()) (\<lambda>_.
          run_stmt connection (''use warehouse '' @ replace_dash warehouse')))
        else ([], Inr ())) (\<lambda>_.
     and_then ([LogInfo (''Executing query = '' @ query)], Inr ()) (\<lambda>_.
       (case execute_dict connection query of
          Raises e \<Rightarrow> ([Statement query], Inl e)
        | ReturnsNone \<Rightarrow>
            ([Statement query], Inl (AssertionError ''cursor_execute should not be None here''))
        | Fetched result \<Rightarrow> ([Statement query], Inr result))))"

text \<open>
  \<^verbatim>\<open>execute\<close> (lines 325 to 360): only a \<^verbatim>\<open>ProgrammingError\<close> is caught and raised
  again as \<^verbatim>\<open>ValueError(f"Query Error: {e}")\<close> (the argument of \<open>ProgrammingError\<close> is
  \<^verbatim>\<open>str(e)\<close>); the result is the dict as the list of its items.
\<close>

definition execute ::
  "env_vars \<Rightarrow> 'v connection \<Rightarrow> string
     \<Rightarrow> 'v event list \<times> ('v py_exception + (string \<times> 'v list) list)" where
  "execute env connection query =
     (case execute_try env connection query of
        (ev, Inl (ProgrammingError m)) \<Rightarrow> (ev, Inl (ValueError (''Query Error: '' @ m)))
      | (ev, Inl e) \<Rightarrow> (ev, Inl e)
      | (ev, Inr result) \<Rightarrow> (ev, accumulate [] result))"

text \<open>The error the specification calls QueryError: the \<^verbatim>\<open>ValueError\<close> of line 349.\<close>

fun is_QueryError :: "'v py_exception + 'a \<Rightarrow> bool" where
  "is_QueryError (Inl (ValueError m)) = (take 13 m = ''Query Error: '')"
| "is_QueryError _ = False"

text \<open>The values of column \<open>k\<close> over a result, in row order: what the specification says
  the returned mapping holds under the name \<open>k\<close>.\<close>

fun is_dict_row :: "'v row \<Rightarrow> bool" where
  "is_dict_row (DictRow kvs) = distinct (map fst kvs)"
| "is_dict_row (TupleRow vs) = False"

fun cell :: "string \<Rightarrow> 'v row \<Rightarrow> 'v option" where
  "cell k (DictRow kvs) = map_of kvs k"
| "cell k (TupleRow vs) = None"

definition values_of_column :: "string \<Rightarrow> 'v row list \<Rightarrow> 'v list" where
  "values_of_column k result = List.map_filter (cell k) result"

text \<open>\<^verbatim>\<open>out_dict[k]\<close> read without inserting: the list under \<open>k\<close>, empty when \<open>k\<close> is
  not a key.\<close>

definition values_so_far :: "(string \<times> 'v list) list \<Rightarrow> string \<Rightarrow> 'v list" where
  "values_so_far d k = (case map_of d k of None \<Rightarrow> [] | Some vs \<Rightarrow> vs)"

section \<open>A small warehouse\<close>

text \<open>
  Schema \<open>S\<close> holds the table \<open>T\<close> with columns \<open>A\<close>, \<open>B\<close>, \<open>C\<close>, the table \<open>ORDERS\<close>
  and the view \<open>ACTIVE_ORDERS\<close>; the information schema still lists a dropped table
  \<open>STALE\<close>. Sampling \<open>A\<close> and \<open>C\<close> succeeds, sampling \<open>B\<close> is refused, any other sample
  is empty. The database \<open>NO_SUCH_DB\<close> does not exist.
\<close>

definition example_columns_df :: "columns_row list" where
  "example_columns_df =
     [\<lparr> TABLE_NAME = ''T'', TABLE_SCHEMA = ''S'', TABLE_COMMENT = Some ''a table'',
        COLUMN_NAME = ''A'', DATA_TYPE = ''TEXT'', COLUMN_COMMENT = None \<rparr>,
      \<lparr> TABLE_NAME = ''T'', TABLE_SCHEMA = ''S'', TABLE_COMMENT = Some ''a table'',
        COLUMN_NAME = ''B'', DATA_TYPE = ''DATE'', COLUMN_COMMENT = Some ''restricted'' \<rparr>,
      \<lparr> TABLE_NAME = ''T'', TABLE_SCHEMA = ''S'', TABLE_COMMENT = Some ''a table'',
        COLUMN_NAME = ''C'', DATA_TYPE = ''NUMBER'', COLUMN_COMMENT = None \<rparr>]"

definition example_catalog :: "catalog_row list" where
  "example_catalog =
     [\<lparr> c_TABLE_SCHEMA = ''S'', c_TABLE_NAME = ''ACTIVE_ORDERS'', c_COLUMN_NAME = ''ID'',
        c_DATA_TYPE = ''NUMBER'', c_COLUMN_COMMENT = None \<rparr>,
      \<lparr> c_TABLE_SCHEMA = ''S'', c_TABLE_NAME = ''ORDERS'', c_COLUMN_NAME = ''ID'',
        c_DATA_TYPE = ''NUMBER'', c_COLUMN_COMMENT = None \<rparr>,
      \<lparr> c_TABLE_SCHEMA = ''S'', c_TABLE_NAME = ''ORDERS'', c_COLUMN_NAME = ''AMOUNT'',
        c_DATA_TYPE = ''NUMBER'', c_COLUMN_COMMENT = Some ''in cents'' \<rparr>,
      \<lparr> c_TABLE_SCHEMA = ''S'', c_TABLE_NAME = ''STALE'', c_COLUMN_NAME = ''X'',
        c_DATA_TYPE = ''TEXT'', c_COLUMN_COMMENT = None \<rparr>]"

definition example_tables :: "show_row list" where
  "example_tables =
     [\<lparr> show_name = ''ORDERS'', show_schema_name = ''S'', show_comment = Some ''orders'' \<rparr>]"

definition example_views :: "show_row list" where
  "example_views =
     [\<lparr> show_name = ''ACTIVE_ORDERS'', show_schema_name = ''S'', show_comment = None \<rparr>]"

definition example_conn :: "string connection" where
  "example_conn =
     \<lparr> warehouse = Some ''WH'',
       execute_dict = (\<lambda>q.
         if q = sample_query ''A'' ''S'' ''T'' 2
           then Fetched [DictRow [(''A'', ''x'')], DictRow [(''A'', ''y'')]]
         else if q = sample_query ''B'' ''S'' ''T'' 2
           then Raises (ProgrammingError ''Insufficient privileges'')
         else if q = sample_query ''C'' ''S'' ''T'' 2
           then Fetched [DictRow [(''C'', ''1'')], DictRow [(''C'', ''2'')]]
         else if q = ''select 1, 2''
           then Fetched [TupleRow [''1'', ''2'']]
         else if q = ''select * from S.T''
           then Raises (DriverError ''Failed to connect to the warehouse'')
         else if q = ''select * from S.MISSING''
           then Raises (ProgrammingError ''Object does not exist'')
         else Fetched []),
       execute_stmt = (\<lambda>q.
         if q = ''USE DATABASE NO_SUCH_DB''
           then Some (ProgrammingError ''Database does not exist'')
         else None),
       execute_catalog = (\<lambda>q.
         if q = catalog_query ascii_lower None None then Fetched example_catalog else Fetched []),
       execute_show = (\<lambda>q.
         if q = ''show tables in database'' then Fetched example_tables
         else if q = ''show views in database'' then Fetched example_views
         else Raises (ProgrammingError ''syntax error'')) \<rparr>"

definition example_env :: env_vars where
  "example_env =
     \<lparr> SNOWFLAKE_ROLE = Some ''ANALYST'', SNOWFLAKE_USER = Some ''alice'',
       SNOWFLAKE_PASSWORD = Some ''secret'', SNOWFLAKE_WAREHOUSE = Some ''WH'',
       SNOWFLAKE_HOST = None, DEFAULT_SESSION_TIMEOUT_SEC = 120 \<rparr>"

definition example_driver :: "credentials \<Rightarrow> string py_exception + string connection" where
  "example_driver creds =
     (if cred_password creds = ''secret'' then Inr example_conn
      else Inl (DriverError ''Incorrect username or password was specified''))"

section \<open>Facts about the Column Sampler\<close>

lemma sample_column_disabled:
  "ndv \<le> 0 \<Longrightarrow> sample_column str conn schema_name table_name cn ndv = ([], None)"
  by (simp add: sample_column_def)

lemma sample_column_raises:
  assumes "0 < ndv"
    and "execute_dict conn (sample_query cn schema_name table_name ndv) = Raises e"
  shows "sample_column str conn schema_name table_name cn ndv =
           ([Statement (sample_query cn schema_name table_name ndv), LogError e], None)"
  using assms by (simp add: sample_column_def)

lemma sample_column_no_rows:
  assumes "0 < ndv"
    and "execute_dict conn (sample_query cn schema_name table_name ndv) = Fetched []"
  shows "sample_column str conn schema_name table_name cn ndv =
           ([Statement (sample_query cn schema_name table_name ndv)], None)"
  using assms by (simp add: sample_column_def)

lemma sample_column_fetched:
  assumes "0 < ndv"
    and "execute_dict conn (sample_query cn schema_name table_name ndv) = Fetched res"
    and "column_values_of str res = Inr vs"
  shows "sample_column str conn schema_name table_name cn ndv =
           ([Statement (sample_query cn schema_name table_name ndv)], vs)"
  using assms by (simp add: sample_column_def)

lemma sample_column_Some:
  assumes "snd (sample_column str conn schema_name table_name cn ndv) = Some vs"
  shows "0 < ndv \<and> (\<exists>res. execute_dict conn (sample_query cn schema_name table_name ndv) = Fetched res
           \<and> column_values_of str res = Inr (Some vs))"
  using assms
  by (auto simp: sample_column_def Let_def split: if_splits outcome.splits sum.splits)

lemma cast_all_length:
  "cast_all str k res = Inr vs \<Longrightarrow> length vs = length res"
  by (induction res arbitrary: vs) (auto split: sum.splits)

lemma column_values_of_Some:
  assumes "column_values_of str res = Inr (Some vs)"
  shows "res \<noteq> [] \<and> length vs = length res"
proof (cases "(str, res)" rule: column_values_of.cases)
  case (1 str')
  with assms show ?thesis by simp
next
  case (2 str' rs)
  with assms show ?thesis by simp
next
  case (3 str' col_key v kvs rs)
  with assms have "cast_all str col_key res = Inr vs"
    by (simp split: sum.splits)
  from cast_all_length [OF this] 3 show ?thesis by auto
next
  case (4 str' vs' rs)
  with assms show ?thesis by simp
qed

lemma get_column_representation_eq:
  "get_column_representation str conn schema_name table_name cn cc ci ct ndv =
     (fst (sample_column str conn schema_name table_name cn ndv),
      \<lparr> column_id = ci, column_name = cn, comment = cc, column_type = ct,
        column_values = snd (sample_column str conn schema_name table_name cn ndv) \<rparr>)"
  by (simp add: get_column_representation_def split: prod.splits)

lemma get_col_eq:
  "get_col str conn schema_name table_name ndv i r =
     \<lparr> column_id = int i, column_name = COLUMN_NAME r, comment = COLUMN_COMMENT r,
       column_type = DATA_TYPE r,
       column_values = snd (sample_column str conn schema_name table_name (COLUMN_NAME r) ndv) \<rparr>"
  by (simp add: get_col_def get_column_representation_eq)

section \<open>Facts about the Table Assembler\<close>

lemma filter_key_distinct:
  "distinct (map f xs) \<Longrightarrow> k \<in> set xs \<Longrightarrow> filter (\<lambda>x. f k = f x) xs = [k]"
proof (induction xs)
  case Nil
  then show ?case by simp
next
  case (Cons a xs)
  show ?case
  proof (cases "a = k")
    case True
    with Cons.prems have "\<forall>x\<in>set xs. f k \<noteq> f x" by auto
    then have "filter (\<lambda>x. f k = f x) xs = []" by (simp add: filter_empty_conv)
    with True show ?thesis by simp
  next
    case False
    with Cons.prems have k: "k \<in> set xs" and d: "distinct (map f xs)" and ne: "f k \<noteq> f a"
      by (auto simp: image_iff)
    from Cons.IH [OF d k] ne show ?thesis by simp
  qed
qed

lemma mset_as_completed:
  assumes "completion_order (length fs) sched"
  shows "mset (map (\<lambda>j. fs ! j) sched) = mset fs"
proof -
  have "mset (map (\<lambda>j. fs ! j) sched) = image_mset (\<lambda>j. fs ! j) (mset sched)" by simp
  also have "\<dots> = image_mset (\<lambda>j. fs ! j) (mset [0..<length fs])"
    using assms by (simp add: completion_order_def)
  also have "\<dots> = mset (map (\<lambda>j. fs ! j) [0..<length fs])" by simp
  also have "\<dots> = mset fs" by (simp add: map_nth)
  finally show ?thesis .
qed

lemma sort_as_completed:
  assumes sched: "completion_order (length fs) sched"
    and keys: "map fst fs = [0..<length fs]"
  shows "sort_key fst (map (\<lambda>j. fs ! j) sched) = fs"
proof (rule properties_for_sort_key)
  show m: "mset fs = mset (map (\<lambda>j. fs ! j) sched)"
    using mset_as_completed [OF sched] by simp
  have d: "distinct (map fst fs)" by (simp add: keys)
  show "sorted (map fst fs)" by (simp add: keys)
  fix k assume k: "k \<in> set fs"
  have "mset (map fst (map (\<lambda>j. fs ! j) sched)) = mset (map fst fs)"
    using m by (metis mset_map)
  then have d': "distinct (map fst (map (\<lambda>j. fs ! j) sched))"
    using d by (metis mset_eq_imp_distinct_iff)
  have k': "k \<in> set (map (\<lambda>j. fs ! j) sched)"
    using k m by (metis mset_eq_setD)
  show "filter (\<lambda>x. fst k = fst x) fs = filter (\<lambda>x. fst k = fst x) (map (\<lambda>j. fs ! j) sched)"
    using filter_key_distinct [OF d k] filter_key_distinct [OF d' k'] by simp
qed

lemma fst_enumerate_futures:
  "map fst (map (\<lambda>(i, r). (i, g i r)) (enumerate 0 rows)) = [0..<length rows]"
  by (simp add: enumerate_eq_zip comp_def case_prod_beta)

lemma snd_enumerate_futures:
  "map snd (map (\<lambda>(i, r). (i, g i r)) (enumerate 0 rows)) = map (\<lambda>i. g i (rows ! i)) [0..<length rows]"
  by (rule nth_equalityI) (simp_all add: nth_enumerate_eq)

lemma get_table_representation_eq:
  assumes ne: "columns_df \<noteq> []" and mw: "1 \<le> max_workers"
    and sched: "completion_order (length columns_df) sched"
  shows "get_table_representation str conn schema_name table_name table_index ndv columns_df
           max_workers sched =
         Inr \<lparr> table_id = table_index, name = table_name,
               table_comment = TABLE_COMMENT (hd columns_df),
               columns = map (\<lambda>i. get_col str conn schema_name table_name ndv i (columns_df ! i))
                           [0..<length columns_df] \<rparr>"
proof -
  let ?fs = "map (\<lambda>(col_index, column_row).
                (col_index, get_col str conn schema_name table_name ndv col_index column_row))
              (enumerate 0 columns_df)"
  have len: "length ?fs = length columns_df" by simp
  have "sort_key fst (map (\<lambda>j. ?fs ! j) sched) = ?fs"
    by (rule sort_as_completed) (simp_all only: len sched fst_enumerate_futures)
  then have "map snd (sort_key fst (map (\<lambda>j. ?fs ! j) sched)) =
      map (\<lambda>i. get_col str conn schema_name table_name ndv i (columns_df ! i)) [0..<length columns_df]"
    by (simp only: snd_enumerate_futures)
  with ne mw show ?thesis
    by (cases columns_df) (simp_all add: get_table_representation_def Let_def)
qed

lemma get_table_representation_empty:
  "get_table_representation str conn schema_name table_name table_index ndv [] max_workers sched
     = Inl IndexError"
  by (simp add: get_table_representation_def)

lemmas example_defs =
  example_conn_def example_columns_df_def sample_query_def dq_def str_int_def str_nat.simps

section \<open>Facts about the Metadata Query Layer\<close>

lemma get_valid_fetched:
  assumes "execute_catalog conn (catalog_query lower table_schema table_names) = Fetched cat"
    and "execute_show conn ''show tables in database'' = Fetched tables"
    and "execute_show conn ''show views in database'' = Fetched views"
  shows "snd (get_valid_schemas_tables_columns_df lower conn table_schema table_names) =
           Inr (merge_inner (map rename_row (tables @ views)) cat)"
  using assms
  by (simp add: get_valid_schemas_tables_columns_df_def fetch_valid_tables_and_views_def
      get_df_def Let_def)

lemma row_key_merge_row: "row_key (merge_row l r) = valid_key l"
  by (simp add: row_key_def merge_row_def valid_key_def)

lemma same_key_iff: "same_key l r \<longleftrightarrow> valid_key l = catalog_key r"
  by (auto simp: same_key_def catalog_key_def valid_key_def)

lemma valid_key_rename: "valid_key (rename_row r) = show_key r"
  by (simp add: rename_row_def show_key_def valid_key_def)

lemma catalog_part_merge_row: "same_key l r \<Longrightarrow> catalog_part (merge_row l r) = r"
  by (simp add: catalog_part_def merge_row_def same_key_def)

lemma merge_inner_Cons:
  "merge_inner (l # left) right =
     map (merge_row l) (filter (same_key l) right) @ merge_inner left right"
  by (simp add: merge_inner_def)

lemma row_keys_merge_inner:
  "map row_key (merge_inner left right) =
     concat (map (\<lambda>l. replicate (length (filter (same_key l) right)) (valid_key l)) left)"
proof (induction left)
  case Nil
  then show ?case by (simp add: merge_inner_def)
next
  case (Cons l left)
  have "map row_key (map (merge_row l) (filter (same_key l) right)) =
          replicate (length (filter (same_key l) right)) (valid_key l)"
    by (simp add: map_replicate_const comp_def row_key_merge_row)
  with Cons show ?case by (simp add: merge_inner_Cons)
qed

lemma set_row_key_merge_inner:
  "set (map row_key (merge_inner left right)) =
     set (map valid_key left) \<inter> set (map catalog_key right)"
proof (induction left)
  case Nil
  then show ?case by (simp add: merge_inner_def)
next
  case (Cons l left)
  have rep: "map row_key (map (merge_row l) (filter (same_key l) right)) =
               replicate (length (filter (same_key l) right)) (valid_key l)"
    by (simp add: map_replicate_const comp_def row_key_merge_row)
  have here: "set (map row_key (map (merge_row l) (filter (same_key l) right))) =
                {valid_key l} \<inter> set (map catalog_key right)"
  proof (cases "\<exists>r \<in> set right. same_key l r")
    case True
    then obtain r where r: "r \<in> set right" and s: "valid_key l = catalog_key r"
      by (auto simp: same_key_iff)
    from r s have "valid_key l \<in> set (map catalog_key right)" by simp
    moreover from True have "filter (same_key l) right \<noteq> []"
      by (simp add: filter_empty_conv)
    ultimately show ?thesis
      unfolding rep by simp
  next
    case False
    then have "filter (same_key l) right = []" by (simp add: filter_empty_conv)
    moreover from False have "valid_key l \<notin> set (map catalog_key right)"
      by (auto simp: same_key_iff)
    ultimately show ?thesis by simp
  qed
  have "set (map row_key (merge_inner (l # left) right)) =
          ({valid_key l} \<inter> set (map catalog_key right))
            \<union> (set (map valid_key left) \<inter> set (map catalog_key right))"
    unfolding merge_inner_Cons map_append set_append here Cons.IH ..
  also have "\<dots> = set (map valid_key (l # left)) \<inter> set (map catalog_key right)"
    by auto
  finally show ?case .
qed

lemma group_of_merge_inner:
  assumes "distinct (map valid_key left)"
  shows "map catalog_part (filter (\<lambda>r. row_key r = k) (merge_inner left right)) =
           (if k \<in> set (map valid_key left)
            then filter (\<lambda>c. catalog_key c = k) right else [])"
  using assms
proof (induction left)
  case Nil
  then show ?case by (simp add: merge_inner_def)
next
  case (Cons l left)
  let ?rows = "map (merge_row l) (filter (same_key l) right)"
  from Cons.prems have notin: "valid_key l \<notin> set (map valid_key left)"
    and d: "distinct (map valid_key left)"
    by simp_all
  show ?case
  proof (cases "valid_key l = k")
    case True
    have here: "map catalog_part (filter (\<lambda>r. row_key r = k) ?rows) =
                  filter (\<lambda>c. catalog_key c = k) right"
    proof -
      have "filter (\<lambda>r. row_key r = k) ?rows = ?rows"
        using True by (simp add: filter_map comp_def row_key_merge_row)
      moreover have "map catalog_part ?rows = filter (same_key l) right"
        by (induction right) (simp_all add: catalog_part_merge_row)
      moreover have "filter (same_key l) right = filter (\<lambda>c. catalog_key c = k) right"
        using True by (auto simp: same_key_iff intro: filter_cong)
      ultimately show ?thesis by simp
    qed
    from True notin have "k \<notin> set (map valid_key left)" by simp
    with Cons.IH [OF d] have rest:
      "map catalog_part (filter (\<lambda>r. row_key r = k) (merge_inner left right)) = []"
      by simp
    from here rest True show ?thesis by (simp add: merge_inner_Cons)
  next
    case False
    have "filter (\<lambda>r. row_key r = k) ?rows = []"
      using False by (simp add: filter_map comp_def row_key_merge_row)
    with Cons.IH [OF d] False show ?thesis by (simp add: merge_inner_Cons)
  qed
qed

lemma catalog_query_unfiltered:
  assumes "\<not> truthy table_schema"
  shows "catalog_query lower table_schema table_names = catalog_query lower None None"
  using assms
  by (simp add: catalog_query_def where_clause_of_def truthy_def split: option.splits)

section \<open>Facts about the Connection Manager and the Query Executor\<close>

lemma and_then_Inl: "and_then (ev, Inl e) f = (ev, Inl e)"
  by (simp add: and_then_def)

lemma and_then_Inr: "and_then (ev, Inr x) f = (ev @ fst (f x), snd (f x))"
  by (simp add: and_then_def split: prod.splits)

lemma connect_closes_after_open:
  assumes "open_connection env snowflake_connection account_name db_name schema_name = (ev, Inr conn)"
  shows "connect env snowflake_connection account_name db_name schema_name body =
           (ev @ fst (body conn) @ [SessionClosed], snd (body conn))"
  using assms by (simp add: connect_def split: prod.splits)

lemma connect_open_failed:
  assumes "open_connection env snowflake_connection account_name db_name schema_name = (ev, Inl e)"
  shows "connect env snowflake_connection account_name db_name schema_name body = (ev, Inl e)"
  using assms by (simp add: connect_def)

lemma session_closed_when_open_succeeds:
  assumes "open_connection env snowflake_connection account_name db_name schema_name = (ev, Inr conn)"
  shows "last (fst (connect env snowflake_connection account_name db_name schema_name body))
           = SessionClosed"
  using connect_closes_after_open [OF assms, of body] by simp

lemma execute_try_attached:
  assumes "warehouse connection \<noteq> None
           \<or> (truthy (SNOWFLAKE_WAREHOUSE env)
               \<and> execute_stmt connection
                    (''use warehouse '' @ replace_dash (the (SNOWFLAKE_WAREHOUSE env))) = None)"
  shows "snd (execute_try env connection query) =
           (case execute_dict connection query of
              Raises e \<Rightarrow> Inl e
            | ReturnsNone \<Rightarrow> Inl (AssertionError ''cursor_execute should not be None here'')
            | Fetched result \<Rightarrow> Inr result)"
proof (cases "warehouse connection = None")
  case True
  with assms have w: "truthy (SNOWFLAKE_WAREHOUSE env)"
    and u: "execute_stmt connection
              (''use warehouse '' @ replace_dash (the (SNOWFLAKE_WAREHOUSE env))) = None"
    by simp_all
  have gw: "get_warehouse env = Inr (the (SNOWFLAKE_WAREHOUSE env))"
    using w by (simp add: get_warehouse_def)
  show ?thesis
    using u unfolding execute_try_def
    by (simp add: True gw and_then_Inr and_then_Inl run_stmt_def split: outcome.splits)
next
  case False
  then obtain w where w: "warehouse connection = Some w" by auto
  show ?thesis
    unfolding execute_try_def
    by (simp add: w and_then_Inr and_then_Inl split: outcome.splits)
qed

lemma execute_try_no_warehouse:
  assumes "warehouse connection = None" and "\<not> truthy (SNOWFLAKE_WAREHOUSE env)"
  shows "execute_try env connection query =
           ([], Inl (ValueError ''You need to set an env var for the snowflake warehouse. export SNOWFLAKE_WAREHOUSE=<your-snowflake-warehouse-name>''))"
  unfolding execute_try_def
  by (simp add: assms get_warehouse_def and_then_Inl)

lemma execute_try_use_warehouse_fails:
  assumes "warehouse connection = None" and "truthy (SNOWFLAKE_WAREHOUSE env)"
    and "execute_stmt connection
           (''use warehouse '' @ replace_dash (the (SNOWFLAKE_WAREHOUSE env))) = Some e"
  shows "snd (execute_try env connection query) = Inl e"
proof -
  have gw: "get_warehouse env = Inr (the (SNOWFLAKE_WAREHOUSE env))"
    using assms(2) by (simp add: get_warehouse_def)
  show ?thesis
    using assms(3) unfolding execute_try_def
    by (simp add: assms(1) gw and_then_Inr and_then_Inl run_stmt_def)
qed

lemma execute_raises_before_statement:
  assumes "execute_try env connection query = (ev, Inl e)" and "\<forall>m. e \<noteq> ProgrammingError m"
  shows "execute env connection query = (ev, Inl e)"
  using assms by (cases e) (simp_all add: execute_def)

lemma snd_execute:
  "snd (execute env connection query) =
     (case snd (execute_try env connection query) of
        Inl (ProgrammingError m) \<Rightarrow> Inl (ValueError (''Query Error: '' @ m))
      | Inl e \<Rightarrow> Inl e
      | Inr result \<Rightarrow> accumulate [] result)"
  by (simp add: execute_def split: prod.splits sum.splits py_exception.splits)

lemma map_of_append_value:
  "map_of (append_value d k v) k' =
     (if k' = k then Some (values_so_far d k @ [v]) else map_of d k')"
  by (induction d k v rule: append_value.induct) (auto simp: values_so_far_def)

lemma keys_append_value: "fst ` set (append_value d k v) = insert k (fst ` set d)"
  by (induction d k v rule: append_value.induct) auto

lemma distinct_append_value:
  "distinct (map fst d) \<Longrightarrow> distinct (map fst (append_value d k v))"
proof (induction d k v rule: append_value.induct)
  case (1 k v)
  then show ?case by simp
next
  case (2 k' vs d k v)
  then show ?case
    using keys_append_value [of d k v] by auto
qed

lemma values_so_far_append_value:
  "values_so_far (append_value d k v) k' =
     (if k' = k then values_so_far d k @ [v] else values_so_far d k')"
  by (simp add: values_so_far_def [of "append_value d k v"] map_of_append_value)
     (simp add: values_so_far_def)

lemma map_of_fold_items:
  assumes "distinct (map fst kvs)"
  shows "map_of (fold (\<lambda>(k, v) d. append_value d k v) kvs d) k' =
           (case map_of kvs k' of
              None \<Rightarrow> map_of d k'
            | Some v \<Rightarrow> Some (values_so_far d k' @ [v]))"
  using assms
proof (induction kvs arbitrary: d)
  case Nil
  then show ?case by simp
next
  case (Cons kv kvs)
  obtain k v where kv: "kv = (k, v)" by (cases kv)
  from Cons.prems kv have d: "distinct (map fst kvs)" and notin: "k \<notin> fst ` set kvs"
    by simp_all
  from notin have none: "map_of kvs k = None"
    by (simp add: map_of_eq_None_iff)
  show ?case
  proof (cases "k' = k")
    case True
    with Cons.IH [OF d, of "append_value d k v"] none kv show ?thesis
      by (simp add: map_of_append_value)
  next
    case False
    with Cons.IH [OF d, of "append_value d k v"] kv show ?thesis
      by (simp add: map_of_append_value values_so_far_append_value split: option.splits)
  qed
qed

lemma distinct_fold_items:
  "distinct (map fst d) \<Longrightarrow> distinct (map fst (fold (\<lambda>(k, v) d. append_value d k v) kvs d))"
  by (induction kvs arbitrary: d) (auto simp: distinct_append_value)

lemma values_of_column_Cons:
  "values_of_column k (r # result) =
     (case cell k r of None \<Rightarrow> values_of_column k result | Some v \<Rightarrow> v # values_of_column k result)"
  by (simp add: values_of_column_def split: option.splits)

lemma accumulate_dict_rows:
  assumes "\<forall>r \<in> set result. is_dict_row r" and "distinct (map fst d)"
  shows "\<exists>out. accumulate d result = Inr out \<and> distinct (map fst out)
           \<and> (\<forall>k. map_of out k =
                 (if values_of_column k result = [] then map_of d k
                  else Some (values_so_far d k @ values_of_column k result)))"
  using assms
proof (induction result arbitrary: d)
  case Nil
  then show ?case by (simp add: values_of_column_def)
next
  case (Cons r result)
  from Cons.prems(1) obtain kvs where r: "r = DictRow kvs" and dk: "distinct (map fst kvs)"
    by (cases r) auto
  let ?d = "fold (\<lambda>(k, v) d. append_value d k v) kvs d"
  from Cons.prems(1) have rest: "\<forall>r \<in> set result. is_dict_row r" by simp
  have dd: "distinct (map fst ?d)"
    by (rule distinct_fold_items [OF Cons.prems(2)])
  from Cons.IH [OF rest dd]
  obtain out where acc: "accumulate ?d result = Inr out" and dout: "distinct (map fst out)"
    and look: "\<And>k. map_of out k =
                 (if values_of_column k result = [] then map_of ?d k
                  else Some (values_so_far ?d k @ values_of_column k result))"
    by auto
  have "map_of out k =
          (if values_of_column k (r # result) = [] then map_of d k
           else Some (values_so_far d k @ values_of_column k (r # result)))" for k
  proof (cases "map_of kvs k")
    case None
    then have m: "map_of ?d k = map_of d k"
      by (simp add: map_of_fold_items [OF dk])
    then have v: "values_so_far ?d k = values_so_far d k"
      by (simp add: values_so_far_def)
    show ?thesis
      by (simp add: look m v values_of_column_Cons r None)
  next
    case (Some v)
    then have m: "map_of ?d k = Some (values_so_far d k @ [v])"
      by (simp add: map_of_fold_items [OF dk])
    then have v: "values_so_far ?d k = values_so_far d k @ [v]"
      by (simp add: values_so_far_def)
    show ?thesis
      by (simp add: look m v values_of_column_Cons r Some)
  qed
  with acc dout r show ?case by simp
qed

lemma accumulate_tuple_row:
  assumes "\<exists>vs. TupleRow vs \<in> set result"
  shows "\<exists>vs. TupleRow vs \<in> set result \<and> accumulate d result = Inl (ValueError_row (TupleRow vs))"
  using assms
proof (induction result arbitrary: d)
  case Nil
  then show ?case by simp
next
  case (Cons r result)
  show ?case
  proof (cases r)
    case (DictRow kvs)
    with Cons.prems have "\<exists>vs. TupleRow vs \<in> set result" by auto
    from Cons.IH [OF this, of "fold (\<lambda>(k, v) d. append_value d k v) kvs d"] DictRow
    show ?thesis by auto
  next
    case (TupleRow vs)
    then show ?thesis by auto
  qed
qed

section \<open>Claims\<close>

text \<open>
  Claim C1. For every column row-set, every number of workers \<open>max_workers \<ge> 1\<close> and every
  order in which the sampling tasks complete, the Table that \<open>get_table_representation\<close>
  returns carries the column of row \<open>i\<close> at index \<open>i\<close> (with the table's index, name and
  the first row's table comment), and the result with one worker equals the result with
  any other number of workers, whatever the two completion orders are. (On an empty
  row-set no Table is returned: the call raises, with any number of workers.)
\<close>

theorem table_columns_in_ordinal_order:
  assumes "1 \<le> max_workers"
    and "completion_order (length columns_df) sched"
    and "completion_order (length columns_df) sched1"
  shows "(columns_df \<noteq> [] \<longrightarrow>
            get_table_representation str conn schema_name table_name table_index ndv columns_df
              max_workers sched =
            Inr \<lparr> table_id = table_index, name = table_name,
                  table_comment = TABLE_COMMENT (hd columns_df),
                  columns = map (\<lambda>i. get_col str conn schema_name table_name ndv i (columns_df ! i))
                              [0..<length columns_df] \<rparr>)
         \<and> get_table_representation str conn schema_name table_name table_index ndv columns_df
              1 sched1 =
           get_table_representation str conn schema_name table_name table_index ndv columns_df
              max_workers sched"
proof (cases "columns_df = []")
  case True
  then show ?thesis by (simp add: get_table_representation_empty)
next
  case False
  have one: "(1::int) \<le> 1" by simp
  note eq = get_table_representation_eq
    [where str = str and conn = conn and schema_name = schema_name and table_name = table_name
       and table_index = table_index and ndv = ndv]
  show ?thesis
    using eq [OF False assms(1) assms(2)] eq [OF False one assms(3)]
    by simp
qed

theorem table_columns_in_ordinal_order_witness:
  "get_table_representation (\<lambda>v. v) example_conn ''S'' ''T'' 7 2 example_columns_df 8 [2, 0, 1] =
     Inr \<lparr> table_id = 7, name = ''T'', table_comment = Some ''a table'',
           columns =
             [\<lparr> column_id = 0, column_name = ''A'', comment = None, column_type = ''TEXT'',
                column_values = Some [''x'', ''y''] \<rparr>,
              \<lparr> column_id = 1, column_name = ''B'', comment = Some ''restricted'', column_type = ''DATE'',
                column_values = None \<rparr>,
              \<lparr> column_id = 2, column_name = ''C'', comment = None, column_type = ''NUMBER'',
                column_values = Some [''1'', ''2''] \<rparr>] \<rparr>
   \<and> get_table_representation (\<lambda>v. v) example_conn ''S'' ''T'' 7 2 example_columns_df 1 [0, 1, 2] =
     get_table_representation (\<lambda>v. v) example_conn ''S'' ''T'' 7 2 example_columns_df 8 [2, 0, 1]"
proof -
  have mw: "(1::int) \<le> 8" by simp
  have len: "length example_columns_df = 3" by (simp add: example_columns_df_def)
  have up: "[0..<3] = [0, 1, 2]" by (simp add: upt_rec)
  have s: "completion_order (length example_columns_df) [2, 0, 1]"
    by (simp add: completion_order_def len up)
  have s1: "completion_order (length example_columns_df) [0, 1, 2]"
    by (simp add: completion_order_def len up)
  have ne: "example_columns_df \<noteq> []" by (simp add: example_columns_df_def)
  have cols: "map (\<lambda>i. get_col (\<lambda>v. v) example_conn ''S'' ''T'' 2 i (example_columns_df ! i))
                [0..<length example_columns_df] =
             [\<lparr> column_id = 0, column_name = ''A'', comment = None, column_type = ''TEXT'',
                column_values = Some [''x'', ''y''] \<rparr>,
              \<lparr> column_id = 1, column_name = ''B'', comment = Some ''restricted'', column_type = ''DATE'',
                column_values = None \<rparr>,
              \<lparr> column_id = 2, column_name = ''C'', comment = None, column_type = ''NUMBER'',
                column_values = Some [''1'', ''2''] \<rparr>]"
    by (simp add: len up get_col_eq sample_column_def example_defs)
  have hd: "TABLE_COMMENT (hd example_columns_df) = Some ''a table''"
    by (simp add: example_columns_df_def)
  from table_columns_in_ordinal_order [OF mw s s1, of "\<lambda>v. v" example_conn "''S''" "''T''" 7 2]
  show ?thesis using ne by (simp only: cols hd simp_thms)
qed

text \<open>
  Claim C2. Let sampling be enabled (\<open>ndv > 0\<close>) and let the sampling statement of column
  \<open>i\<close> raise an exception \<open>e\<close>. Then table assembly still returns a Table with one Column
  per row; column \<open>i\<close> is present with its name, comment, index and datatype and with no
  sample values; every other column whose statement fetched rows from which sample values
  \<open>vs\<close> were read carries exactly \<open>vs\<close>.
\<close>

theorem sampling_failure_is_isolated:
  assumes "columns_df \<noteq> []" and "1 \<le> max_workers"
    and "completion_order (length columns_df) sched"
    and "0 < ndv" and "i < length columns_df"
    and "execute_dict conn
           (sample_query (COLUMN_NAME (columns_df ! i)) schema_name table_name ndv) = Raises e"
  shows "\<exists>t. get_table_representation str conn schema_name table_name table_index ndv columns_df
               max_workers sched = Inr t
           \<and> length (columns t) = length columns_df
           \<and> columns t ! i =
               \<lparr> column_id = int i, column_name = COLUMN_NAME (columns_df ! i),
                 comment = COLUMN_COMMENT (columns_df ! i),
                 column_type = DATA_TYPE (columns_df ! i), column_values = None \<rparr>
           \<and> (\<forall>j res vs. j < length columns_df \<and> j \<noteq> i
                  \<and> execute_dict conn
                       (sample_query (COLUMN_NAME (columns_df ! j)) schema_name table_name ndv)
                      = Fetched res
                  \<and> column_values_of str res = Inr (Some vs)
                \<longrightarrow> columns t ! j =
                      \<lparr> column_id = int j, column_name = COLUMN_NAME (columns_df ! j),
                        comment = COLUMN_COMMENT (columns_df ! j),
                        column_type = DATA_TYPE (columns_df ! j), column_values = Some vs \<rparr>)"
proof -
  let ?t = "\<lparr> table_id = table_index, name = table_name,
              table_comment = TABLE_COMMENT (hd columns_df),
              columns = map (\<lambda>i. get_col str conn schema_name table_name ndv i (columns_df ! i))
                          [0..<length columns_df] \<rparr>"
  have ret: "get_table_representation str conn schema_name table_name table_index ndv columns_df
               max_workers sched = Inr ?t"
    by (rule get_table_representation_eq [OF assms(1) assms(2) assms(3)])
  have len: "length (columns ?t) = length columns_df" by simp
  have nth: "columns ?t ! j = get_col str conn schema_name table_name ndv j (columns_df ! j)"
    if "j < length columns_df" for j
    using that by simp
  have failing: "columns ?t ! i =
      \<lparr> column_id = int i, column_name = COLUMN_NAME (columns_df ! i),
        comment = COLUMN_COMMENT (columns_df ! i),
        column_type = DATA_TYPE (columns_df ! i), column_values = None \<rparr>"
  proof -
    have "columns ?t ! i = get_col str conn schema_name table_name ndv i (columns_df ! i)"
      by (rule nth [OF assms(5)])
    also have "\<dots> = \<lparr> column_id = int i, column_name = COLUMN_NAME (columns_df ! i),
        comment = COLUMN_COMMENT (columns_df ! i),
        column_type = DATA_TYPE (columns_df ! i), column_values = None \<rparr>"
      by (simp add: get_col_eq sample_column_raises [OF assms(4) assms(6)])
    finally show ?thesis .
  qed
  have others: "columns ?t ! j =
      \<lparr> column_id = int j, column_name = COLUMN_NAME (columns_df ! j),
        comment = COLUMN_COMMENT (columns_df ! j),
        column_type = DATA_TYPE (columns_df ! j), column_values = Some vs \<rparr>"
    if "j < length columns_df"
      and "execute_dict conn
             (sample_query (COLUMN_NAME (columns_df ! j)) schema_name table_name ndv) = Fetched res"
      and "column_values_of str res = Inr (Some vs)" for j res vs
  proof -
    have "columns ?t ! j = get_col str conn schema_name table_name ndv j (columns_df ! j)"
      by (rule nth [OF that(1)])
    also have "\<dots> = \<lparr> column_id = int j, column_name = COLUMN_NAME (columns_df ! j),
        comment = COLUMN_COMMENT (columns_df ! j),
        column_type = DATA_TYPE (columns_df ! j), column_values = Some vs \<rparr>"
      by (simp add: get_col_eq sample_column_fetched [OF assms(4) that(2) that(3)])
    finally show ?thesis .
  qed
  show ?thesis
    using ret len failing others by blast
qed

theorem sampling_failure_is_isolated_witness:
  "\<exists>t. get_table_representation (\<lambda>v. v) example_conn ''S'' ''T'' 7 2 example_columns_df 8 [2, 0, 1]
          = Inr t
     \<and> length (columns t) = 3
     \<and> columns t ! 1 =
         \<lparr> column_id = 1, column_name = ''B'', comment = Some ''restricted'', column_type = ''DATE'',
           column_values = None \<rparr>
     \<and> columns t ! 0 =
         \<lparr> column_id = 0, column_name = ''A'', comment = None, column_type = ''TEXT'',
           column_values = Some [''x'', ''y''] \<rparr>
     \<and> columns t ! 2 =
         \<lparr> column_id = 2, column_name = ''C'', comment = None, column_type = ''NUMBER'',
           column_values = Some [''1'', ''2''] \<rparr>"
proof -
  have ne: "example_columns_df \<noteq> []" by (simp add: example_columns_df_def)
  have mw: "(1::int) \<le> 8" by simp
  have len: "length example_columns_df = 3" by (simp add: example_columns_df_def)
  have up: "[0..<3] = [0, 1, 2]" by (simp add: upt_rec)
  have s: "completion_order (length example_columns_df) [2, 0, 1]"
    by (simp add: completion_order_def len up)
  have ndv: "(0::int) < 2" by simp
  have i: "1 < length example_columns_df" by (simp add: len)
  have r0: "example_columns_df ! 0 =
      \<lparr> TABLE_NAME = ''T'', TABLE_SCHEMA = ''S'', TABLE_COMMENT = Some ''a table'',
        COLUMN_NAME = ''A'', DATA_TYPE = ''TEXT'', COLUMN_COMMENT = None \<rparr>"
    by (simp add: example_columns_df_def)
  have r1: "example_columns_df ! 1 =
      \<lparr> TABLE_NAME = ''T'', TABLE_SCHEMA = ''S'', TABLE_COMMENT = Some ''a table'',
        COLUMN_NAME = ''B'', DATA_TYPE = ''DATE'', COLUMN_COMMENT = Some ''restricted'' \<rparr>"
    by (simp add: example_columns_df_def)
  have r2: "example_columns_df ! 2 =
      \<lparr> TABLE_NAME = ''T'', TABLE_SCHEMA = ''S'', TABLE_COMMENT = Some ''a table'',
        COLUMN_NAME = ''C'', DATA_TYPE = ''NUMBER'', COLUMN_COMMENT = None \<rparr>"
    by (simp add: example_columns_df_def)
  have fail: "execute_dict example_conn
      (sample_query (COLUMN_NAME (example_columns_df ! 1)) ''S'' ''T'' 2)
        = Raises (ProgrammingError ''Insufficient privileges'')"
    by (subst r1) (simp add: example_conn_def sample_query_def dq_def str_int_def str_nat.simps)
  have a: "execute_dict example_conn
      (sample_query (COLUMN_NAME (example_columns_df ! 0)) ''S'' ''T'' 2)
        = Fetched [DictRow [(''A'', ''x'')], DictRow [(''A'', ''y'')]]"
    by (subst r0) (simp add: example_conn_def sample_query_def dq_def str_int_def str_nat.simps)
  have c: "execute_dict example_conn
      (sample_query (COLUMN_NAME (example_columns_df ! 2)) ''S'' ''T'' 2)
        = Fetched [DictRow [(''C'', ''1'')], DictRow [(''C'', ''2'')]]"
    by (subst r2) (simp add: example_conn_def sample_query_def dq_def str_int_def str_nat.simps)
  have va: "column_values_of (\<lambda>v. v) [DictRow [(''A'', ''x'')], DictRow [(''A'', ''y'')]]
              = Inr (Some [''x'', ''y''])"
    by simp
  have vc: "column_values_of (\<lambda>v. v) [DictRow [(''C'', ''1'')], DictRow [(''C'', ''2'')]]
              = Inr (Some [''1'', ''2''])"
    by simp
  from sampling_failure_is_isolated [OF ne mw s ndv i fail, of "\<lambda>v. v" 7]
  obtain t where t: "get_table_representation (\<lambda>v. v) example_conn ''S'' ''T'' 7 2
                       example_columns_df 8 [2, 0, 1] = Inr t"
    and l: "length (columns t) = length example_columns_df"
    and b: "columns t ! 1 =
               \<lparr> column_id = int 1, column_name = COLUMN_NAME (example_columns_df ! 1),
                 comment = COLUMN_COMMENT (example_columns_df ! 1),
                 column_type = DATA_TYPE (example_columns_df ! 1), column_values = None \<rparr>"
    and o: "\<And>j res vs. j < length example_columns_df \<Longrightarrow> j \<noteq> 1
             \<Longrightarrow> execute_dict example_conn
                   (sample_query (COLUMN_NAME (example_columns_df ! j)) ''S'' ''T'' 2) = Fetched res
             \<Longrightarrow> column_values_of (\<lambda>v. v) res = Inr (Some vs)
             \<Longrightarrow> columns t ! j =
                   \<lparr> column_id = int j, column_name = COLUMN_NAME (example_columns_df ! j),
                     comment = COLUMN_COMMENT (example_columns_df ! j),
                     column_type = DATA_TYPE (example_columns_df ! j), column_values = Some vs \<rparr>"
    by blast
  have j0: "0 < length example_columns_df" and j2: "2 < length example_columns_df"
    by (simp_all add: len)
  have c0: "columns t ! 0 =
         \<lparr> column_id = 0, column_name = ''A'', comment = None, column_type = ''TEXT'',
           column_values = Some [''x'', ''y''] \<rparr>"
    using o [OF j0 _ a va] unfolding r0 by simp
  have c2: "columns t ! 2 =
         \<lparr> column_id = 2, column_name = ''C'', comment = None, column_type = ''NUMBER'',
           column_values = Some [''1'', ''2''] \<rparr>"
    using o [OF j2 _ c vc] unfolding r2 by simp
  have c1: "columns t ! 1 =
         \<lparr> column_id = 1, column_name = ''B'', comment = Some ''restricted'', column_type = ''DATE'',
           column_values = None \<rparr>"
    using b unfolding r1 by simp
  from t l c0 c1 c2 show ?thesis by (simp add: len)
qed

text \<open>
  Claim C7. For every \<open>ndv \<le> 0\<close> (zero and every negative number) the column sampler
  does nothing to the connection (it issues no statement and logs nothing), and the
  Column it returns has no sample values and the index, name, comment and datatype it
  was given.
\<close>

theorem no_sampling_when_ndv_not_positive:
  assumes "ndv \<le> 0"
  shows "get_column_representation str conn schema_name table_name cn cc ci ct ndv =
           ([], \<lparr> column_id = ci, column_name = cn, comment = cc, column_type = ct, column_values = None \<rparr>)"
  using assms by (simp add: get_column_representation_eq sample_column_disabled)

theorem no_sampling_when_ndv_not_positive_witness:
  "get_column_representation (\<lambda>v. v) example_conn ''S'' ''T'' ''A'' (Some ''first'') 0 ''TEXT'' (- 5) =
     ([], \<lparr> column_id = 0, column_name = ''A'', comment = Some ''first'', column_type = ''TEXT'',
            column_values = None \<rparr>)
   \<and> execute_dict example_conn (sample_query ''A'' ''S'' ''T'' 2) \<noteq> Fetched []"
proof -
  have "(- 5 :: int) \<le> 0" by simp
  from no_sampling_when_ndv_not_positive [OF this]
  show ?thesis
    by (simp add: example_conn_def)
qed

text \<open>
  Claim C10. With \<open>ndv > 0\<close>, a sampling statement that succeeds with zero rows leaves the
  Column's values absent: the Column is the one returned when sampling is disabled
  (\<open>ndv \<le> 0\<close>) and the one returned when the statement raises. The values are present only
  when \<open>ndv > 0\<close> and the statement fetched at least one row, and then they are a list
  with one string per row.
\<close>

theorem empty_sample_is_absent:
  "(0 < ndv \<and> execute_dict conn (sample_query cn schema_name table_name ndv) = Fetched []
      \<longrightarrow> snd (get_column_representation str conn schema_name table_name cn cc ci ct ndv) =
            \<lparr> column_id = ci, column_name = cn, comment = cc, column_type = ct, column_values = None \<rparr>)
   \<and> (ndv \<le> 0
      \<longrightarrow> snd (get_column_representation str conn schema_name table_name cn cc ci ct ndv) =
            \<lparr> column_id = ci, column_name = cn, comment = cc, column_type = ct, column_values = None \<rparr>)
   \<and> (0 < ndv \<and> execute_dict conn (sample_query cn schema_name table_name ndv) = Raises e
      \<longrightarrow> snd (get_column_representation str conn schema_name table_name cn cc ci ct ndv) =
            \<lparr> column_id = ci, column_name = cn, comment = cc, column_type = ct, column_values = None \<rparr>)
   \<and> (column_values (snd (get_column_representation str conn schema_name table_name cn cc ci ct ndv))
        = Some vs
      \<longrightarrow> 0 < ndv \<and> vs \<noteq> []
          \<and> (\<exists>res. execute_dict conn (sample_query cn schema_name table_name ndv) = Fetched res
                \<and> res \<noteq> [] \<and> length vs = length res))"
proof -
  let ?col = "snd (get_column_representation str conn schema_name table_name cn cc ci ct ndv)"
  let ?q = "sample_query cn schema_name table_name ndv"
  let ?absent = "\<lparr> column_id = ci, column_name = cn, comment = cc, column_type = ct,
                   column_values = None \<rparr>"
  have empty: "?col = ?absent" if "0 < ndv \<and> execute_dict conn ?q = Fetched []"
    using that by (simp add: get_column_representation_eq sample_column_no_rows)
  have disabled: "?col = ?absent" if "ndv \<le> 0"
    using that by (simp add: get_column_representation_eq sample_column_disabled)
  have failed: "?col = ?absent" if "0 < ndv \<and> execute_dict conn ?q = Raises e"
    using that by (simp add: get_column_representation_eq sample_column_raises)
  have present: "0 < ndv \<and> vs \<noteq> []
      \<and> (\<exists>res. execute_dict conn ?q = Fetched res \<and> res \<noteq> [] \<and> length vs = length res)"
    if "column_values ?col = Some vs"
  proof -
    from that have "snd (sample_column str conn schema_name table_name cn ndv) = Some vs"
      by (simp add: get_column_representation_eq)
    from sample_column_Some [OF this]
    obtain res where pos: "0 < ndv"
      and res: "execute_dict conn ?q = Fetched res"
      and vs: "column_values_of str res = Inr (Some vs)"
      by blast
    from column_values_of_Some [OF vs] have "res \<noteq> []" and "length vs = length res"
      by simp_all
    with pos res show ?thesis by auto
  qed
  from empty disabled failed present show ?thesis by blast
qed

theorem empty_sample_is_absent_witness:
  "execute_dict example_conn (sample_query ''EMPTY'' ''S'' ''T'' 2) = Fetched []
   \<and> snd (get_column_representation (\<lambda>v. v) example_conn ''S'' ''T'' ''EMPTY'' None 3 ''TEXT'' 2) =
       \<lparr> column_id = 3, column_name = ''EMPTY'', comment = None, column_type = ''TEXT'', column_values = None \<rparr>
   \<and> snd (get_column_representation (\<lambda>v. v) example_conn ''S'' ''T'' ''EMPTY'' None 3 ''TEXT'' 0) =
       \<lparr> column_id = 3, column_name = ''EMPTY'', comment = None, column_type = ''TEXT'', column_values = None \<rparr>
   \<and> snd (get_column_representation (\<lambda>v. v) example_conn ''S'' ''T'' ''B'' None 3 ''TEXT'' 2) =
       \<lparr> column_id = 3, column_name = ''B'', comment = None, column_type = ''TEXT'', column_values = None \<rparr>"
proof -
  have q: "execute_dict example_conn (sample_query ''EMPTY'' ''S'' ''T'' 2) = Fetched []"
    by (simp add: example_conn_def sample_query_def dq_def str_int_def str_nat.simps)
  have b: "execute_dict example_conn (sample_query ''B'' ''S'' ''T'' 2) =
             Raises (ProgrammingError ''Insufficient privileges'')"
    by (simp add: example_conn_def sample_query_def dq_def str_int_def str_nat.simps)
  note inst = empty_sample_is_absent [where str = "\<lambda>v. v" and conn = example_conn
      and schema_name = "''S''" and table_name = "''T''" and cc = None and ci = 3
      and ct = "''TEXT''"]
  from inst [where cn = "''EMPTY''" and ndv = 2] q
    inst [where cn = "''EMPTY''" and ndv = 0]
    inst [where cn = "''B''" and ndv = 2 and e = "ProgrammingError ''Insufficient privileges''"] b
  show ?thesis by simp
qed

text \<open>
  Claim C3, as stated: the returned row-set is sorted by schema name, then table name
  (then ordinal position). It is not: the warehouse answers the information-schema query
  in that order, and the merge then puts the rows in the order of the live listing, tables
  before views. Here the rows of the table \<open>ORDERS\<close> come before the row of the view
  \<open>ACTIVE_ORDERS\<close> of the same schema.
\<close>

theorem result_not_sorted_by_schema_and_table:
  "sorted (map catalog_key example_catalog)
   \<and> execute_catalog example_conn (catalog_query ascii_lower None None) = Fetched example_catalog
   \<and> snd (get_valid_schemas_tables_columns_df ascii_lower example_conn None None) =
       Inr [\<lparr> TABLE_NAME = ''ORDERS'', TABLE_SCHEMA = ''S'', TABLE_COMMENT = Some ''orders'',
              COLUMN_NAME = ''ID'', DATA_TYPE = ''NUMBER'', COLUMN_COMMENT = None \<rparr>,
            \<lparr> TABLE_NAME = ''ORDERS'', TABLE_SCHEMA = ''S'', TABLE_COMMENT = Some ''orders'',
              COLUMN_NAME = ''AMOUNT'', DATA_TYPE = ''NUMBER'', COLUMN_COMMENT = Some ''in cents'' \<rparr>,
            \<lparr> TABLE_NAME = ''ACTIVE_ORDERS'', TABLE_SCHEMA = ''S'', TABLE_COMMENT = None,
              COLUMN_NAME = ''ID'', DATA_TYPE = ''NUMBER'', COLUMN_COMMENT = None \<rparr>]
   \<and> \<not> sorted (map row_key
         [\<lparr> TABLE_NAME = ''ORDERS'', TABLE_SCHEMA = ''S'', TABLE_COMMENT = Some ''orders'',
            COLUMN_NAME = ''ID'', DATA_TYPE = ''NUMBER'', COLUMN_COMMENT = None \<rparr>,
          \<lparr> TABLE_NAME = ''ORDERS'', TABLE_SCHEMA = ''S'', TABLE_COMMENT = Some ''orders'',
            COLUMN_NAME = ''AMOUNT'', DATA_TYPE = ''NUMBER'', COLUMN_COMMENT = Some ''in cents'' \<rparr>,
          \<lparr> TABLE_NAME = ''ACTIVE_ORDERS'', TABLE_SCHEMA = ''S'', TABLE_COMMENT = None,
            COLUMN_NAME = ''ID'', DATA_TYPE = ''NUMBER'', COLUMN_COMMENT = None \<rparr>])"
proof -
  have query_sorted: "sorted (map catalog_key example_catalog)"
    by code_simp
  have c: "execute_catalog example_conn (catalog_query ascii_lower None None) = Fetched example_catalog"
    by (simp add: example_conn_def)
  have t: "execute_show example_conn ''show tables in database'' = Fetched example_tables"
    by (simp add: example_conn_def)
  have v: "execute_show example_conn ''show views in database'' = Fetched example_views"
    by (simp add: example_conn_def)
  have merged: "merge_inner (map rename_row (example_tables @ example_views)) example_catalog =
       [\<lparr> TABLE_NAME = ''ORDERS'', TABLE_SCHEMA = ''S'', TABLE_COMMENT = Some ''orders'',
          COLUMN_NAME = ''ID'', DATA_TYPE = ''NUMBER'', COLUMN_COMMENT = None \<rparr>,
        \<lparr> TABLE_NAME = ''ORDERS'', TABLE_SCHEMA = ''S'', TABLE_COMMENT = Some ''orders'',
          COLUMN_NAME = ''AMOUNT'', DATA_TYPE = ''NUMBER'', COLUMN_COMMENT = Some ''in cents'' \<rparr>,
        \<lparr> TABLE_NAME = ''ACTIVE_ORDERS'', TABLE_SCHEMA = ''S'', TABLE_COMMENT = None,
          COLUMN_NAME = ''ID'', DATA_TYPE = ''NUMBER'', COLUMN_COMMENT = None \<rparr>]"
    by (simp add: merge_inner_def merge_row_def same_key_def rename_row_def example_tables_def
        example_views_def example_catalog_def)
  have unsorted: "\<not> sorted [(''S'', ''ORDERS''), (''S'', ''ORDERS''), (''S'', ''ACTIVE_ORDERS'')]"
    by code_simp
  from get_valid_fetched [OF c t v] query_sorted c unsorted
  show ?thesis
    by (simp only: merged) (simp add: row_key_def)
qed

text \<open>
  Claim C3, amended. When the three catalog statements succeed and no object is listed
  twice, the returned row-set follows the live listing (the tables in the order listed,
  then the views in the order listed), each listed object contributing as many rows as
  the information-schema query returned for it; and the rows of one (schema, table) are
  the rows the query returned for it, in the query's order (which the statement asks to
  be the ordinal position).
\<close>

theorem result_in_listing_order_then_query_order:
  assumes "execute_catalog conn (catalog_query lower table_schema table_names) = Fetched cat"
    and "execute_show conn ''show tables in database'' = Fetched tables"
    and "execute_show conn ''show views in database'' = Fetched views"
    and "distinct (map show_key (tables @ views))"
  shows "\<exists>rows. snd (get_valid_schemas_tables_columns_df lower conn table_schema table_names) = Inr rows
           \<and> map row_key rows =
               concat (map (\<lambda>l. replicate (length (filter (\<lambda>c. catalog_key c = show_key l) cat))
                                   (show_key l)) (tables @ views))
           \<and> (\<forall>k. map catalog_part (filter (\<lambda>r. row_key r = k) rows) =
                    (if k \<in> set (map show_key (tables @ views))
                     then filter (\<lambda>c. catalog_key c = k) cat else []))"
proof -
  let ?left = "map rename_row (tables @ views)"
  have keys: "map valid_key ?left = map show_key (tables @ views)"
    by (simp add: valid_key_rename comp_def del: map_append)
  have same: "filter (same_key (rename_row l)) cat = filter (\<lambda>c. catalog_key c = show_key l) cat"
    for l
    by (rule filter_cong) (auto simp: same_key_iff valid_key_rename)
  have order: "map row_key (merge_inner ?left cat) =
      concat (map (\<lambda>l. replicate (length (filter (\<lambda>c. catalog_key c = show_key l) cat))
                          (show_key l)) (tables @ views))"
    by (simp add: row_keys_merge_inner comp_def same valid_key_rename del: map_append)
  have d: "distinct (map valid_key ?left)"
    using assms(4) by (simp only: keys)
  have groups: "map catalog_part (filter (\<lambda>r. row_key r = k) (merge_inner ?left cat)) =
      (if k \<in> set (map show_key (tables @ views))
       then filter (\<lambda>c. catalog_key c = k) cat else [])" for k
    using group_of_merge_inner [OF d, of k cat] by (simp only: keys)
  from get_valid_fetched [OF assms(1) assms(2) assms(3)] order groups
  show ?thesis by blast
qed

theorem result_in_listing_order_then_query_order_witness:
  "\<exists>rows. snd (get_valid_schemas_tables_columns_df ascii_lower example_conn None None) = Inr rows
     \<and> map row_key rows = [(''S'', ''ORDERS''), (''S'', ''ORDERS''), (''S'', ''ACTIVE_ORDERS'')]
     \<and> map c_COLUMN_NAME (map catalog_part (filter (\<lambda>r. row_key r = (''S'', ''ORDERS'')) rows))
         = [''ID'', ''AMOUNT'']"
proof -
  have c: "execute_catalog example_conn (catalog_query ascii_lower None None) = Fetched example_catalog"
    by (simp add: example_conn_def)
  have t: "execute_show example_conn ''show tables in database'' = Fetched example_tables"
    by (simp add: example_conn_def)
  have v: "execute_show example_conn ''show views in database'' = Fetched example_views"
    by (simp add: example_conn_def)
  have d: "distinct (map show_key (example_tables @ example_views))"
    by (simp add: example_tables_def example_views_def show_key_def)
  from result_in_listing_order_then_query_order [OF c t v d]
  obtain rows where all:
    "snd (get_valid_schemas_tables_columns_df ascii_lower example_conn None None) = Inr rows
     \<and> map row_key rows =
        concat (map (\<lambda>l. replicate (length (filter (\<lambda>c. catalog_key c = show_key l) example_catalog))
                            (show_key l)) (example_tables @ example_views))
     \<and> (\<forall>k. map catalog_part (filter (\<lambda>r. row_key r = k) rows) =
               (if k \<in> set (map show_key (example_tables @ example_views))
                then filter (\<lambda>c. catalog_key c = k) example_catalog else []))" ..
  from all have r: "snd (get_valid_schemas_tables_columns_df ascii_lower example_conn None None) = Inr rows"
    by (rule conjunct1)
  from all have o: "map row_key rows =
        concat (map (\<lambda>l. replicate (length (filter (\<lambda>c. catalog_key c = show_key l) example_catalog))
                            (show_key l)) (example_tables @ example_views))"
    by (rule conjunct1 [OF conjunct2])
  from all have g: "map catalog_part (filter (\<lambda>r. row_key r = k) rows) =
               (if k \<in> set (map show_key (example_tables @ example_views))
                then filter (\<lambda>c. catalog_key c = k) example_catalog else [])" for k
    by (rule spec [OF conjunct2 [OF conjunct2]])
  have o': "map row_key rows = [(''S'', ''ORDERS''), (''S'', ''ORDERS''), (''S'', ''ACTIVE_ORDERS'')]"
    unfolding o
    by (simp add: example_tables_def example_views_def example_catalog_def show_key_def
        catalog_key_def)
  have g': "map c_COLUMN_NAME (map catalog_part (filter (\<lambda>r. row_key r = (''S'', ''ORDERS'')) rows))
              = [''ID'', ''AMOUNT'']"
    unfolding g
    by (simp add: example_tables_def example_views_def example_catalog_def show_key_def
        catalog_key_def)
  from r o' g' show ?thesis by (intro exI [of _ rows] conjI)
qed

text \<open>
  Claim C6. When the three catalog statements succeed, the (schema, table) pairs of the
  returned row-set are exactly those that occur both in the information-schema query and
  in the live listing (tables and views together): a pair that the information schema
  still shows and the live listing does not have never appears.
\<close>

theorem only_live_objects_are_retained:
  assumes "execute_catalog conn (catalog_query lower table_schema table_names) = Fetched cat"
    and "execute_show conn ''show tables in database'' = Fetched tables"
    and "execute_show conn ''show views in database'' = Fetched views"
  shows "\<exists>rows. snd (get_valid_schemas_tables_columns_df lower conn table_schema table_names) = Inr rows
           \<and> set (map row_key rows) =
               set (map catalog_key cat) \<inter> set (map show_key (tables @ views))
           \<and> (\<forall>k. k \<notin> set (map show_key (tables @ views)) \<longrightarrow> k \<notin> set (map row_key rows))"
proof -
  let ?left = "map rename_row (tables @ views)"
  have keys: "map valid_key ?left = map show_key (tables @ views)"
    by (simp add: valid_key_rename comp_def del: map_append)
  have "set (map row_key (merge_inner ?left cat)) =
          set (map catalog_key cat) \<inter> set (map show_key (tables @ views))"
    using set_row_key_merge_inner [of ?left cat] by (simp only: keys Int_commute)
  with get_valid_fetched [OF assms] show ?thesis by blast
qed

theorem only_live_objects_are_retained_witness:
  "(''S'', ''STALE'') \<in> set (map catalog_key example_catalog)
   \<and> (''S'', ''STALE'') \<notin> set (map show_key (example_tables @ example_views))
   \<and> (\<exists>rows. snd (get_valid_schemas_tables_columns_df ascii_lower example_conn None None) = Inr rows
         \<and> (''S'', ''STALE'') \<notin> set (map row_key rows)
         \<and> set (map row_key rows) = {(''S'', ''ORDERS''), (''S'', ''ACTIVE_ORDERS'')})"
proof -
  have c: "execute_catalog example_conn (catalog_query ascii_lower None None) = Fetched example_catalog"
    by (simp add: example_conn_def)
  have t: "execute_show example_conn ''show tables in database'' = Fetched example_tables"
    by (simp add: example_conn_def)
  have v: "execute_show example_conn ''show views in database'' = Fetched example_views"
    by (simp add: example_conn_def)
  have stale: "(''S'', ''STALE'') \<in> set (map catalog_key example_catalog)"
    by (simp add: example_catalog_def catalog_key_def)
  have live: "(''S'', ''STALE'') \<notin> set (map show_key (example_tables @ example_views))"
    by (simp add: example_tables_def example_views_def show_key_def)
  have inter: "set (map catalog_key example_catalog)
                 \<inter> set (map show_key (example_tables @ example_views))
               = {(''S'', ''ORDERS''), (''S'', ''ACTIVE_ORDERS'')}"
    by (auto simp: example_catalog_def catalog_key_def example_tables_def example_views_def
        show_key_def)
  from only_live_objects_are_retained [OF c t v]
  obtain rows where r: "snd (get_valid_schemas_tables_columns_df ascii_lower example_conn None None) = Inr rows"
    and k: "set (map row_key rows) =
              set (map catalog_key example_catalog)
                \<inter> set (map show_key (example_tables @ example_views))"
    and n: "\<And>k. k \<notin> set (map show_key (example_tables @ example_views))
                \<Longrightarrow> k \<notin> set (map row_key rows)"
    by blast
  from n [OF live] have gone: "(''S'', ''STALE'') \<notin> set (map row_key rows)" .
  from k inter have "set (map row_key rows) = {(''S'', ''ORDERS''), (''S'', ''ACTIVE_ORDERS'')}"
    by (simp only:)
  with stale live r gone show ?thesis by blast
qed

text \<open>
  Claim C8. Called with a non-empty list of table names and no schema (\<open>None\<close> or the
  empty string), \<open>get_valid_schemas_tables_columns_df\<close> logs a warning and then does
  exactly what the call without any filter does: the same statements, the first of them
  the unfiltered catalog query, and the same result, so it fails only where the
  unfiltered call fails.
\<close>

theorem table_names_without_schema_are_ignored:
  assumes "table_names = Some names" and "names \<noteq> []"
    and "table_schema = None \<or> table_schema = Some []"
  shows "catalog_query lower table_schema table_names = catalog_query lower None None
         \<and> get_valid_schemas_tables_columns_df lower conn table_schema table_names =
             (LogWarning ''Provided table_name without table_schema, cannot filter to fetch the specific table''
                # fst (get_valid_schemas_tables_columns_df lower conn None None),
              snd (get_valid_schemas_tables_columns_df lower conn None None))
         \<and> hd (fst (get_valid_schemas_tables_columns_df lower conn None None)) =
             Statement (catalog_query lower None None)"
proof -
  from assms(3) have nots: "\<not> truthy table_schema" by (auto simp: truthy_def)
  from assms(1,2) have names: "truthy table_names" by (simp add: truthy_def)
  have none: "\<not> truthy (None :: string list option)" "\<not> truthy (None :: string option)"
    by (simp_all add: truthy_def)
  have q: "catalog_query lower table_schema table_names = catalog_query lower None None"
    by (rule catalog_query_unfiltered [OF nots])
  have run: "get_valid_schemas_tables_columns_df lower conn table_schema table_names =
             (LogWarning ''Provided table_name without table_schema, cannot filter to fetch the specific table''
                # fst (get_valid_schemas_tables_columns_df lower conn None None),
              snd (get_valid_schemas_tables_columns_df lower conn None None))"
    unfolding get_valid_schemas_tables_columns_df_def Let_def q
    by (simp add: nots names none split: outcome.splits prod.splits sum.splits)
  have first: "hd (fst (get_valid_schemas_tables_columns_df lower conn None None)) =
             Statement (catalog_query lower None None)"
    unfolding get_valid_schemas_tables_columns_df_def Let_def
    by (simp add: none split: outcome.splits prod.splits sum.splits)
  from q run first show ?thesis by simp
qed

theorem table_names_without_schema_are_ignored_witness:
  "get_valid_schemas_tables_columns_df ascii_lower example_conn (Some []) (Some [''ORDERS'']) =
     (LogWarning ''Provided table_name without table_schema, cannot filter to fetch the specific table''
        # fst (get_valid_schemas_tables_columns_df ascii_lower example_conn None None),
      snd (get_valid_schemas_tables_columns_df ascii_lower example_conn None None))
   \<and> catalog_query ascii_lower (Some []) (Some [''ORDERS'']) = catalog_query ascii_lower None None
   \<and> catalog_query ascii_lower (Some ''S'') (Some [''ORDERS'']) \<noteq> catalog_query ascii_lower None None"
proof -
  have ne: "[''ORDERS''] \<noteq> []" by simp
  have filtered: "catalog_query ascii_lower (Some ''S'') (Some [''ORDERS'']) \<noteq> catalog_query ascii_lower None None"
    by (simp add: catalog_query_def where_clause_of_def)
  from table_names_without_schema_are_ignored
      [OF refl ne, where table_schema = "Some []" and conn = example_conn and lower = ascii_lower]
    filtered
  show ?thesis by simp
qed

text \<open>
  Claim C5, as stated: \<open>execute\<close> raises the QueryError whenever running the statement
  fails, whatever the failure. It does not: a driver exception that is not a
  \<^verbatim>\<open>ProgrammingError\<close> passes through \<^verbatim>\<open>except ProgrammingError\<close> unchanged.
\<close>

theorem execute_lets_other_driver_errors_through:
  "execute_dict example_conn ''select * from S.T'' =
     Raises (DriverError ''Failed to connect to the warehouse'')
   \<and> snd (execute example_env example_conn ''select * from S.T'') =
       Inl (DriverError ''Failed to connect to the warehouse'')
   \<and> \<not> is_QueryError (snd (execute example_env example_conn ''select * from S.T''))"
proof -
  have w: "warehouse example_conn \<noteq> None
           \<or> (truthy (SNOWFLAKE_WAREHOUSE example_env)
               \<and> execute_stmt example_conn
                    (''use warehouse '' @ replace_dash (the (SNOWFLAKE_WAREHOUSE example_env))) = None)"
    by (simp add: example_conn_def)
  have q: "execute_dict example_conn ''select * from S.T'' =
             Raises (DriverError ''Failed to connect to the warehouse'')"
    by (simp add: example_conn_def sample_query_def dq_def)
  have "snd (execute example_env example_conn ''select * from S.T'') =
          Inl (DriverError ''Failed to connect to the warehouse'')"
    by (simp only: snd_execute execute_try_attached [OF w] q outcome.case sum.case
        py_exception.case)
  with q show ?thesis by simp
qed

text \<open>
  Claim C5, amended. \<open>execute\<close> raises \<^verbatim>\<open>ValueError\<close> with the message
  \<^verbatim>\<open>Query Error: \<close> followed by the driver's message when a statement it runs (the
  \<^verbatim>\<open>use warehouse\<close> that attaches the configured warehouse, or the query) fails with
  the driver's \<^verbatim>\<open>ProgrammingError\<close>. Every other exception is raised unchanged: the
  \<^verbatim>\<open>ValueError\<close> of a missing warehouse variable (raised before any statement is
  run), another exception of the driver from either statement, and the
  \<^verbatim>\<open>AssertionError\<close> when \<^verbatim>\<open>cursor.execute\<close> returns \<^verbatim>\<open>None\<close>. When the query
  succeeds and every row is a name-keyed record, the result maps each column name that
  occurs to the values of that column in row order, and has no other key; when it
  succeeds and some row is not a name-keyed record, a \<^verbatim>\<open>ValueError\<close> about such a row
  is raised.
\<close>

theorem execute_outcomes:
  "(warehouse connection = None \<and> \<not> truthy (SNOWFLAKE_WAREHOUSE env)
      \<longrightarrow> execute env connection query =
            ([], Inl (ValueError ''You need to set an env var for the snowflake warehouse. export SNOWFLAKE_WAREHOUSE=<your-snowflake-warehouse-name>'')))
   \<and> (warehouse connection = None \<and> truthy (SNOWFLAKE_WAREHOUSE env)
        \<and> execute_stmt connection
             (''use warehouse '' @ replace_dash (the (SNOWFLAKE_WAREHOUSE env)))
            = Some (ProgrammingError m)
      \<longrightarrow> snd (execute env connection query) = Inl (ValueError (''Query Error: '' @ m)))
   \<and> (warehouse connection = None \<and> truthy (SNOWFLAKE_WAREHOUSE env)
        \<and> execute_stmt connection
             (''use warehouse '' @ replace_dash (the (SNOWFLAKE_WAREHOUSE env))) = Some e
        \<and> (\<forall>m'. e \<noteq> ProgrammingError m')
      \<longrightarrow> snd (execute env connection query) = Inl e)
   \<and> (warehouse connection \<noteq> None
        \<or> (truthy (SNOWFLAKE_WAREHOUSE env)
            \<and> execute_stmt connection
                 (''use warehouse '' @ replace_dash (the (SNOWFLAKE_WAREHOUSE env))) = None)
      \<longrightarrow> (execute_dict connection query = Raises (ProgrammingError m)
              \<longrightarrow> snd (execute env connection query) = Inl (ValueError (''Query Error: '' @ m)))
          \<and> (execute_dict connection query = Raises e \<and> (\<forall>m'. e \<noteq> ProgrammingError m')
              \<longrightarrow> snd (execute env connection query) = Inl e)
          \<and> (execute_dict connection query = ReturnsNone
              \<longrightarrow> snd (execute env connection query) =
                    Inl (AssertionError ''cursor_execute should not be None here''))
          \<and> (execute_dict connection query = Fetched result
                \<and> (\<forall>r \<in> set result. is_dict_row r)
              \<longrightarrow> (\<exists>out. snd (execute env connection query) = Inr out
                     \<and> distinct (map fst out)
                     \<and> (\<forall>k. map_of out k =
                           (if values_of_column k result = [] then None
                            else Some (values_of_column k result)))))
          \<and> (execute_dict connection query = Fetched result
                \<and> (\<exists>vs. TupleRow vs \<in> set result)
              \<longrightarrow> (\<exists>vs. TupleRow vs \<in> set result
                     \<and> snd (execute env connection query) =
                         Inl (ValueError_row (TupleRow vs)))))"
proof -
  let ?use = "''use warehouse '' @ replace_dash (the (SNOWFLAKE_WAREHOUSE env))"
  have unset: "execute env connection query =
      ([], Inl (ValueError ''You need to set an env var for the snowflake warehouse. export SNOWFLAKE_WAREHOUSE=<your-snowflake-warehouse-name>''))"
    if "warehouse connection = None \<and> \<not> truthy (SNOWFLAKE_WAREHOUSE env)"
  proof -
    from that have n: "warehouse connection = None" and u: "\<not> truthy (SNOWFLAKE_WAREHOUSE env)"
      by simp_all
    show ?thesis
      by (rule execute_raises_before_statement [OF execute_try_no_warehouse [OF n u]]) simp
  qed
  have use_wrapped: "snd (execute env connection query) = Inl (ValueError (''Query Error: '' @ m))"
    if "warehouse connection = None \<and> truthy (SNOWFLAKE_WAREHOUSE env)
        \<and> execute_stmt connection ?use = Some (ProgrammingError m)"
  proof -
    from that have n: "warehouse connection = None" and t: "truthy (SNOWFLAKE_WAREHOUSE env)"
      and s: "execute_stmt connection ?use = Some (ProgrammingError m)"
      by simp_all
    show ?thesis
      by (simp add: snd_execute execute_try_use_warehouse_fails [OF n t s])
  qed
  have use_unchanged: "snd (execute env connection query) = Inl e"
    if "warehouse connection = None \<and> truthy (SNOWFLAKE_WAREHOUSE env)
        \<and> execute_stmt connection ?use = Some e \<and> (\<forall>m'. e \<noteq> ProgrammingError m')"
  proof -
    from that have n: "warehouse connection = None" and t: "truthy (SNOWFLAKE_WAREHOUSE env)"
      and s: "execute_stmt connection ?use = Some e" and o: "\<forall>m'. e \<noteq> ProgrammingError m'"
      by simp_all
    from o show ?thesis
      by (simp add: snd_execute execute_try_use_warehouse_fails [OF n t s]
          split: py_exception.splits)
  qed
  have attached:
    "(execute_dict connection query = Raises (ProgrammingError m)
        \<longrightarrow> snd (execute env connection query) = Inl (ValueError (''Query Error: '' @ m)))
     \<and> (execute_dict connection query = Raises e \<and> (\<forall>m'. e \<noteq> ProgrammingError m')
        \<longrightarrow> snd (execute env connection query) = Inl e)
     \<and> (execute_dict connection query = ReturnsNone
        \<longrightarrow> snd (execute env connection query) =
              Inl (AssertionError ''cursor_execute should not be None here''))
     \<and> (execute_dict connection query = Fetched result \<and> (\<forall>r \<in> set result. is_dict_row r)
        \<longrightarrow> (\<exists>out. snd (execute env connection query) = Inr out
               \<and> distinct (map fst out)
               \<and> (\<forall>k. map_of out k =
                     (if values_of_column k result = [] then None
                      else Some (values_of_column k result)))))
     \<and> (execute_dict connection query = Fetched result \<and> (\<exists>vs. TupleRow vs \<in> set result)
        \<longrightarrow> (\<exists>vs. TupleRow vs \<in> set result
               \<and> snd (execute env connection query) = Inl (ValueError_row (TupleRow vs))))"
    if att: "warehouse connection \<noteq> None
             \<or> (truthy (SNOWFLAKE_WAREHOUSE env) \<and> execute_stmt connection ?use = None)"
  proof -
    note run = execute_try_attached [OF att, of query]
    have wrapped: "snd (execute env connection query) = Inl (ValueError (''Query Error: '' @ m))"
      if "execute_dict connection query = Raises (ProgrammingError m)"
      by (simp add: snd_execute run that)
    have unchanged: "snd (execute env connection query) = Inl e"
      if "execute_dict connection query = Raises e \<and> (\<forall>m'. e \<noteq> ProgrammingError m')"
      using that by (simp add: snd_execute run split: py_exception.splits)
    have none: "snd (execute env connection query) =
                  Inl (AssertionError ''cursor_execute should not be None here'')"
      if "execute_dict connection query = ReturnsNone"
      by (simp add: snd_execute run that)
    have acc: "snd (execute env connection query) = accumulate [] result"
      if "execute_dict connection query = Fetched result"
      by (simp add: snd_execute run that)
    have mapping: "\<exists>out. snd (execute env connection query) = Inr out
                     \<and> distinct (map fst out)
                     \<and> (\<forall>k. map_of out k =
                           (if values_of_column k result = [] then None
                            else Some (values_of_column k result)))"
      if "execute_dict connection query = Fetched result \<and> (\<forall>r \<in> set result. is_dict_row r)"
    proof -
      from that have f: "execute_dict connection query = Fetched result"
        and d: "\<forall>r \<in> set result. is_dict_row r"
        by simp_all
      from accumulate_dict_rows [OF d, of "[]"]
      obtain out where o: "accumulate [] result = Inr out" and dist: "distinct (map fst out)"
        and m: "\<And>k. map_of out k =
                   (if values_of_column k result = [] then map_of [] k
                    else Some (values_so_far [] k @ values_of_column k result))"
        by auto
      have "map_of out k =
              (if values_of_column k result = [] then None else Some (values_of_column k result))"
        for k
        by (simp add: m values_so_far_def)
      with o dist show ?thesis by (simp add: acc [OF f])
    qed
    have shape: "\<exists>vs. TupleRow vs \<in> set result
                   \<and> snd (execute env connection query) = Inl (ValueError_row (TupleRow vs))"
      if "execute_dict connection query = Fetched result \<and> (\<exists>vs. TupleRow vs \<in> set result)"
    proof -
      from that have f: "execute_dict connection query = Fetched result"
        and t: "\<exists>vs. TupleRow vs \<in> set result"
        by simp_all
      from accumulate_tuple_row [OF t, of "[]"] show ?thesis by (simp add: acc [OF f])
    qed
    show ?thesis
      by (intro conjI impI wrapped unchanged none mapping shape) simp_all
  qed
  show ?thesis
    by (intro conjI impI unset use_wrapped use_unchanged attached) simp_all
qed

theorem execute_outcomes_witness:
  "execute (example_env \<lparr> SNOWFLAKE_WAREHOUSE := None \<rparr>) (example_conn \<lparr> warehouse := None \<rparr>)
       ''select 1, 2'' =
     ([], Inl (ValueError ''You need to set an env var for the snowflake warehouse. export SNOWFLAKE_WAREHOUSE=<your-snowflake-warehouse-name>''))
   \<and> snd (execute example_env
            (example_conn \<lparr> warehouse := None,
                            execute_stmt := (\<lambda>q. Some (ProgrammingError ''No such warehouse'')) \<rparr>)
            ''select 1, 2'') =
       Inl (ValueError ''Query Error: No such warehouse'')
   \<and> snd (execute example_env
            (example_conn \<lparr> warehouse := None,
                            execute_stmt := (\<lambda>q. Some (DriverError ''Connection lost'')) \<rparr>)
            ''select 1, 2'') =
       Inl (DriverError ''Connection lost'')
   \<and> snd (execute example_env (example_conn \<lparr> execute_dict := (\<lambda>q. ReturnsNone) \<rparr>)
            ''select 1, 2'') =
       Inl (AssertionError ''cursor_execute should not be None here'')
   \<and> snd (execute example_env example_conn ''select * from S.MISSING'') =
       Inl (ValueError ''Query Error: Object does not exist'')
   \<and> snd (execute example_env example_conn ''select * from S.T'') =
       Inl (DriverError ''Failed to connect to the warehouse'')
   \<and> (\<exists>out. snd (execute example_env example_conn (sample_query ''A'' ''S'' ''T'' 2)) = Inr out
         \<and> map_of out ''A'' = Some [''x'', ''y''] \<and> map_of out ''B'' = None)
   \<and> snd (execute example_env example_conn ''select 1, 2'') =
       Inl (ValueError_row (TupleRow [''1'', ''2'']))"
proof -
  have w: "warehouse example_conn \<noteq> None
           \<or> (truthy (SNOWFLAKE_WAREHOUSE example_env)
               \<and> execute_stmt example_conn
                    (''use warehouse '' @ replace_dash (the (SNOWFLAKE_WAREHOUSE example_env))) = None)"
    by (simp add: example_conn_def)
  note att = execute_outcomes [where env = example_env and connection = example_conn,
      THEN conjunct2, THEN conjunct2, THEN conjunct2, THEN mp, OF w]
  have q1: "execute_dict example_conn ''select * from S.MISSING'' =
              Raises (ProgrammingError ''Object does not exist'')"
    by (simp add: example_conn_def sample_query_def dq_def)
  have q2: "execute_dict example_conn ''select * from S.T'' =
              Raises (DriverError ''Failed to connect to the warehouse'')"
    by (simp add: example_conn_def sample_query_def dq_def)
  have q3: "execute_dict example_conn (sample_query ''A'' ''S'' ''T'' 2) =
              Fetched [DictRow [(''A'', ''x'')], DictRow [(''A'', ''y'')]]"
    by (simp add: example_conn_def)
  have q4: "execute_dict example_conn ''select 1, 2'' = Fetched [TupleRow [''1'', ''2'']]"
    by (simp add: example_conn_def sample_query_def dq_def)
  have u: "execute (example_env \<lparr> SNOWFLAKE_WAREHOUSE := None \<rparr>)
             (example_conn \<lparr> warehouse := None \<rparr>) ''select 1, 2'' =
     ([], Inl (ValueError ''You need to set an env var for the snowflake warehouse. export SNOWFLAKE_WAREHOUSE=<your-snowflake-warehouse-name>''))"
    using execute_outcomes [where env = "example_env \<lparr> SNOWFLAKE_WAREHOUSE := None \<rparr>"
        and connection = "example_conn \<lparr> warehouse := None \<rparr>" and query = "''select 1, 2''",
        THEN conjunct1]
    by (simp add: truthy_def)
  have uw: "snd (execute example_env
            (example_conn \<lparr> warehouse := None,
                            execute_stmt := (\<lambda>q. Some (ProgrammingError ''No such warehouse'')) \<rparr>)
            ''select 1, 2'') =
       Inl (ValueError ''Query Error: No such warehouse'')"
    using execute_outcomes [where env = example_env
        and connection = "example_conn \<lparr> warehouse := None,
                            execute_stmt := (\<lambda>q. Some (ProgrammingError ''No such warehouse'')) \<rparr>"
        and query = "''select 1, 2''" and m = "''No such warehouse''",
        THEN conjunct2, THEN conjunct1]
    by (simp add: truthy_def example_env_def)
  have uo: "snd (execute example_env
            (example_conn \<lparr> warehouse := None,
                            execute_stmt := (\<lambda>q. Some (DriverError ''Connection lost'')) \<rparr>)
            ''select 1, 2'') =
       Inl (DriverError ''Connection lost'')"
    using execute_outcomes [where env = example_env
        and connection = "example_conn \<lparr> warehouse := None,
                            execute_stmt := (\<lambda>q. Some (DriverError ''Connection lost'')) \<rparr>"
        and query = "''select 1, 2''" and e = "DriverError ''Connection lost''",
        THEN conjunct2, THEN conjunct2, THEN conjunct1]
    by (simp add: truthy_def example_env_def)
  have rn: "snd (execute example_env (example_conn \<lparr> execute_dict := (\<lambda>q. ReturnsNone) \<rparr>)
            ''select 1, 2'') =
       Inl (AssertionError ''cursor_execute should not be None here'')"
    using execute_outcomes [where env = example_env
        and connection = "example_conn \<lparr> execute_dict := (\<lambda>q. ReturnsNone) \<rparr>"
        and query = "''select 1, 2''",
        THEN conjunct2, THEN conjunct2, THEN conjunct2]
    by (simp add: example_conn_def)
  have r1: "snd (execute example_env example_conn ''select * from S.MISSING'') =
              Inl (ValueError ''Query Error: Object does not exist'')"
    using att [of "''select * from S.MISSING''" "''Object does not exist''"] q1
    by simp
  have r2: "snd (execute example_env example_conn ''select * from S.T'') =
              Inl (DriverError ''Failed to connect to the warehouse'')"
    using att [of "''select * from S.T''" _
        "DriverError ''Failed to connect to the warehouse''"] q2
    by simp
  have r3: "\<exists>out. snd (execute example_env example_conn (sample_query ''A'' ''S'' ''T'' 2)) = Inr out
              \<and> map_of out ''A'' = Some [''x'', ''y''] \<and> map_of out ''B'' = None"
  proof -
    have va: "values_of_column ''A'' [DictRow [(''A'', ''x'')], DictRow [(''A'', ''y'')]]
                = [''x'', ''y'']"
      by (simp add: values_of_column_def)
    have vb: "values_of_column ''B'' [DictRow [(''A'', ''x'')], DictRow [(''A'', ''y'')]] = []"
      by (simp add: values_of_column_def)
    have dicts: "\<forall>r \<in> set [DictRow [(''A'', ''x'')], DictRow [(''A'', ''y'' :: string)]]. is_dict_row r"
      by simp
    from att [of "sample_query ''A'' ''S'' ''T'' 2" _ _
        "[DictRow [(''A'', ''x'')], DictRow [(''A'', ''y'')]]"] q3 dicts
    obtain out where o: "snd (execute example_env example_conn (sample_query ''A'' ''S'' ''T'' 2))
                           = Inr out"
      and m: "\<forall>k. map_of out k =
                (if values_of_column k [DictRow [(''A'', ''x'')], DictRow [(''A'', ''y'')]] = []
                 then None
                 else Some (values_of_column k [DictRow [(''A'', ''x'')], DictRow [(''A'', ''y'')]]))"
      by auto
    from m have "map_of out ''A'' = Some [''x'', ''y'']" by (simp add: va)
    moreover from m have "map_of out ''B'' = None" by (simp add: vb)
    ultimately show ?thesis using o by blast
  qed
  have r4: "snd (execute example_env example_conn ''select 1, 2'') =
              Inl (ValueError_row (TupleRow [''1'', ''2'']))"
    using att [of "''select 1, 2''" _ _ "[TupleRow [''1'', ''2'']]"] q4
    by simp
  from u uw uo rn r1 r2 r3 r4 show ?thesis by (intro conjI)
qed

text \<open>
  Claim C9. The credentials are resolved in the order user, password, role, warehouse,
  before the driver is called. If one of them is unset or empty and those resolved before
  it are present (in particular, if it is the only one missing), \<open>connect\<close> fails with
  the \<^verbatim>\<open>ValueError\<close> whose message names that variable, and nothing has happened: no
  session was opened. If all four are present, the driver is called with them: its
  exception is the outcome of \<open>connect\<close>, and if it returns a connection the session is
  opened right after the host has been looked up.
\<close>

theorem missing_credential_is_named:
  "(\<not> truthy (SNOWFLAKE_USER env)
      \<longrightarrow> connect env snowflake_connection account_name db_name schema_name body =
            ([], Inl (ValueError ''You need to set an env var for the snowflake user. export SNOWFLAKE_USER=<your-snowflake-user>'')))
   \<and> (truthy (SNOWFLAKE_USER env) \<and> \<not> truthy (SNOWFLAKE_PASSWORD env)
      \<longrightarrow> connect env snowflake_connection account_name db_name schema_name body =
            ([], Inl (ValueError ''You need to set an env var for the snowflake password. export SNOWFLAKE_PASSWORD=<your-snowflake-password>'')))
   \<and> (truthy (SNOWFLAKE_USER env) \<and> truthy (SNOWFLAKE_PASSWORD env)
        \<and> \<not> truthy (SNOWFLAKE_ROLE env)
      \<longrightarrow> connect env snowflake_connection account_name db_name schema_name body =
            ([], Inl (ValueError ''You need to set an env var for the snowflake role. export SNOWFLAKE_ROLE=<your-snowflake-role>'')))
   \<and> (truthy (SNOWFLAKE_USER env) \<and> truthy (SNOWFLAKE_PASSWORD env)
        \<and> truthy (SNOWFLAKE_ROLE env) \<and> \<not> truthy (SNOWFLAKE_WAREHOUSE env)
      \<longrightarrow> connect env snowflake_connection account_name db_name schema_name body =
            ([], Inl (ValueError ''You need to set an env var for the snowflake warehouse. export SNOWFLAKE_WAREHOUSE=<your-snowflake-warehouse-name>'')))
   \<and> (truthy (SNOWFLAKE_USER env) \<and> truthy (SNOWFLAKE_PASSWORD env)
        \<and> truthy (SNOWFLAKE_ROLE env) \<and> truthy (SNOWFLAKE_WAREHOUSE env)
      \<longrightarrow> (\<forall>e. snowflake_connection
                   \<lparr> cred_user = the (SNOWFLAKE_USER env),
                     cred_password = the (SNOWFLAKE_PASSWORD env),
                     cred_account = account_name, cred_role = the (SNOWFLAKE_ROLE env),
                     cred_warehouse = the (SNOWFLAKE_WAREHOUSE env),
                     cred_host = SNOWFLAKE_HOST env \<rparr> = Inl e
                \<longrightarrow> connect env snowflake_connection account_name db_name schema_name body =
                      (fst (get_host env), Inl e))
          \<and> (\<forall>c. snowflake_connection
                   \<lparr> cred_user = the (SNOWFLAKE_USER env),
                     cred_password = the (SNOWFLAKE_PASSWORD env),
                     cred_account = account_name, cred_role = the (SNOWFLAKE_ROLE env),
                     cred_warehouse = the (SNOWFLAKE_WAREHOUSE env),
                     cred_host = SNOWFLAKE_HOST env \<rparr> = Inr c
                \<longrightarrow> (\<exists>evs. fst (connect env snowflake_connection account_name db_name
                                    schema_name body) =
                             fst (get_host env) @ SessionOpened # evs)))"
proof -
  let ?open = "open_connection env snowflake_connection account_name db_name schema_name"
  let ?connect = "connect env snowflake_connection account_name db_name schema_name body"
  let ?creds = "\<lparr> cred_user = the (SNOWFLAKE_USER env),
                  cred_password = the (SNOWFLAKE_PASSWORD env),
                  cred_account = account_name, cred_role = the (SNOWFLAKE_ROLE env),
                  cred_warehouse = the (SNOWFLAKE_WAREHOUSE env),
                  cred_host = SNOWFLAKE_HOST env \<rparr>"
  have host: "(case get_host env of (ev, host) \<Rightarrow> (ev, Inr host)) =
                (fst (get_host env), Inr (SNOWFLAKE_HOST env))"
    by (simp add: get_host_def)
  have user: "?connect = ([], Inl (ValueError ''You need to set an env var for the snowflake user. export SNOWFLAKE_USER=<your-snowflake-user>''))"
    if "\<not> truthy (SNOWFLAKE_USER env)"
    by (rule connect_open_failed)
      (simp add: open_connection_def get_user_def that and_then_Inl)
  have password: "?connect = ([], Inl (ValueError ''You need to set an env var for the snowflake password. export SNOWFLAKE_PASSWORD=<your-snowflake-password>''))"
    if "truthy (SNOWFLAKE_USER env) \<and> \<not> truthy (SNOWFLAKE_PASSWORD env)"
    by (rule connect_open_failed)
      (simp add: open_connection_def get_user_def get_password_def that and_then_Inl and_then_Inr)
  have role: "?connect = ([], Inl (ValueError ''You need to set an env var for the snowflake role. export SNOWFLAKE_ROLE=<your-snowflake-role>''))"
    if "truthy (SNOWFLAKE_USER env) \<and> truthy (SNOWFLAKE_PASSWORD env)
        \<and> \<not> truthy (SNOWFLAKE_ROLE env)"
    by (rule connect_open_failed)
      (simp add: open_connection_def get_user_def get_password_def get_role_def that
        and_then_Inl and_then_Inr)
  have wh: "?connect = ([], Inl (ValueError ''You need to set an env var for the snowflake warehouse. export SNOWFLAKE_WAREHOUSE=<your-snowflake-warehouse-name>''))"
    if "truthy (SNOWFLAKE_USER env) \<and> truthy (SNOWFLAKE_PASSWORD env)
        \<and> truthy (SNOWFLAKE_ROLE env) \<and> \<not> truthy (SNOWFLAKE_WAREHOUSE env)"
    by (rule connect_open_failed)
      (simp add: open_connection_def get_user_def get_password_def get_role_def
        get_warehouse_def that and_then_Inl and_then_Inr)
  have refused: "?connect = (fst (get_host env), Inl e)"
    if all: "truthy (SNOWFLAKE_USER env) \<and> truthy (SNOWFLAKE_PASSWORD env)
        \<and> truthy (SNOWFLAKE_ROLE env) \<and> truthy (SNOWFLAKE_WAREHOUSE env)"
      and drv: "snowflake_connection ?creds = Inl e" for e
    by (rule connect_open_failed)
      (simp add: open_connection_def get_user_def get_password_def get_role_def
        get_warehouse_def all host drv and_then_Inl and_then_Inr)
  have opened: "\<exists>evs. fst ?connect = fst (get_host env) @ SessionOpened # evs"
    if all: "truthy (SNOWFLAKE_USER env) \<and> truthy (SNOWFLAKE_PASSWORD env)
        \<and> truthy (SNOWFLAKE_ROLE env) \<and> truthy (SNOWFLAKE_WAREHOUSE env)"
      and drv: "snowflake_connection ?creds = Inr c" for c
  proof -
    have "\<exists>evs. fst ?open = fst (get_host env) @ SessionOpened # evs"
      unfolding open_connection_def
      by (simp add: get_user_def get_password_def get_role_def get_warehouse_def all host drv
          and_then_Inr)
    then obtain evs where o: "fst ?open = fst (get_host env) @ SessionOpened # evs" ..
    show ?thesis
    proof (cases "snd ?open")
      case (Inl e)
      then have "?open = (fst ?open, Inl e)" by (simp add: prod_eq_iff)
      from connect_open_failed [OF this, of body] o show ?thesis by simp
    next
      case (Inr conn)
      then have "?open = (fst ?open, Inr conn)" by (simp add: prod_eq_iff)
      from connect_closes_after_open [OF this, of body] o show ?thesis by simp
    qed
  qed
  show ?thesis
    using user password role wh refused opened by (intro conjI impI allI) simp_all
qed

theorem missing_credential_is_named_witness:
  "connect (example_env \<lparr> SNOWFLAKE_ROLE := None \<rparr>) example_driver ''ACCT'' ''DB'' None
       (\<lambda>c. ([], Inr ())) =
     ([], Inl (ValueError ''You need to set an env var for the snowflake role. export SNOWFLAKE_ROLE=<your-snowflake-role>''))
   \<and> connect (example_env \<lparr> SNOWFLAKE_WAREHOUSE := Some [] \<rparr>) example_driver ''ACCT'' ''DB''
       None (\<lambda>c. ([], Inr ())) =
     ([], Inl (ValueError ''You need to set an env var for the snowflake warehouse. export SNOWFLAKE_WAREHOUSE=<your-snowflake-warehouse-name>''))
   \<and> connect (example_env \<lparr> SNOWFLAKE_PASSWORD := Some ''wrong'' \<rparr>) example_driver ''ACCT''
       ''DB'' None (\<lambda>c. ([], Inr ())) =
     (fst (get_host example_env), Inl (DriverError ''Incorrect username or password was specified''))
   \<and> (\<exists>evs. fst (connect example_env example_driver ''ACCT'' ''DB'' None (\<lambda>c. ([], Inr ()))) =
         fst (get_host example_env) @ SessionOpened # evs)"
proof -
  note inst = missing_credential_is_named [where snowflake_connection = example_driver
      and account_name = "''ACCT''" and db_name = "''DB''" and schema_name = None
      and body = "\<lambda>c. ([], Inr ())"]
  have r: "connect (example_env \<lparr> SNOWFLAKE_ROLE := None \<rparr>) example_driver ''ACCT'' ''DB'' None
       (\<lambda>c. ([], Inr ())) =
     ([], Inl (ValueError ''You need to set an env var for the snowflake role. export SNOWFLAKE_ROLE=<your-snowflake-role>''))"
    using inst [where env = "example_env \<lparr> SNOWFLAKE_ROLE := None \<rparr>"]
    by (simp add: example_env_def truthy_def)
  have w: "connect (example_env \<lparr> SNOWFLAKE_WAREHOUSE := Some [] \<rparr>) example_driver ''ACCT'' ''DB''
       None (\<lambda>c. ([], Inr ())) =
     ([], Inl (ValueError ''You need to set an env var for the snowflake warehouse. export SNOWFLAKE_WAREHOUSE=<your-snowflake-warehouse-name>''))"
    using inst [where env = "example_env \<lparr> SNOWFLAKE_WAREHOUSE := Some [] \<rparr>"]
    by (simp add: example_env_def truthy_def)
  have p: "connect (example_env \<lparr> SNOWFLAKE_PASSWORD := Some ''wrong'' \<rparr>) example_driver ''ACCT''
       ''DB'' None (\<lambda>c. ([], Inr ())) =
     (fst (get_host example_env), Inl (DriverError ''Incorrect username or password was specified''))"
    using inst [where env = "example_env \<lparr> SNOWFLAKE_PASSWORD := Some ''wrong'' \<rparr>"]
    by (simp add: example_env_def truthy_def example_driver_def get_host_def)
  have ok: "\<exists>evs. fst (connect example_env example_driver ''ACCT'' ''DB'' None (\<lambda>c. ([], Inr ()))) =
         fst (get_host example_env) @ SessionOpened # evs"
    using inst [where env = example_env]
    by (simp add: example_env_def truthy_def example_driver_def get_host_def)
  from r w p ok show ?thesis by (intro conjI)
qed

text \<open>
  Claim C4, on the code. The database \<open>NO_SUCH_DB\<close> does not exist: the session is
  established, \<^verbatim>\<open>USE DATABASE\<close> fails, \<^verbatim>\<open>_open_connection\<close> raises before it returns
  the connection, the local \<^verbatim>\<open>conn\<close> of \<open>connect\<close> is still \<^verbatim>\<open>None\<close>, and the
  \<^verbatim>\<open>finally\<close> block closes nothing. The exception is propagated with the session
  still open.
\<close>

theorem connect_leaves_session_open_when_use_database_fails:
  "connect example_env example_driver ''ACCT'' ''NO_SUCH_DB'' None (\<lambda>c. ([], Inr ())) =
     ([LogInfo ''No host set. Attempting to connect without. To set export SNOWFLAKE_HOST=<snowflake-host-name>'',
       SessionOpened, Statement ''USE DATABASE NO_SUCH_DB''],
      Inl (ValueError ''Could not connect to database NO_SUCH_DB. Does the database exist in ACCT?''))
   \<and> session_left_open
        (fst (connect example_env example_driver ''ACCT'' ''NO_SUCH_DB'' None (\<lambda>c. ([], Inr ()))))"
proof -
  have "open_connection example_env example_driver ''ACCT'' ''NO_SUCH_DB'' None =
     ([LogInfo ''No host set. Attempting to connect without. To set export SNOWFLAKE_HOST=<snowflake-host-name>'',
       SessionOpened, Statement ''USE DATABASE NO_SUCH_DB''],
      Inl (ValueError ''Could not connect to database NO_SUCH_DB. Does the database exist in ACCT?''))"
    by (simp add: open_connection_def get_user_def get_password_def get_role_def
        get_warehouse_def get_host_def truthy_def example_env_def example_driver_def
        example_conn_def run_stmt_or_def and_then_Inl and_then_Inr)
  from connect_open_failed [OF this, of "\<lambda>c. ([], Inr ())"] show ?thesis by simp
qed

end
